theory Spec2Isabelle
  imports Main "HOL-Library.Word" "HOL-Library.AList"
begin

text \<open>
  The form logic of the PrismWorlds client: validation and submission of the sign-up page,
  the handlers of the modal in which a teacher writes a lesson, and the performance metrics
  of the student detail modal. Each source function is a HOL function of the same name
  (with the prefix \<open>signup_\<close> or \<open>lesson_\<close> where both components define one); React
  state is passed explicitly, and what a handler does to its surroundings is logged as a
  list of effects.
\<close>

section \<open>JavaScript values used by the components\<close>

text \<open>
  A JavaScript string is a sequence of UTF-16 code units; \<open>length\<close>, \<open>trim\<close> and a
  regular expression without the \<open>u\<close> flag all work on code units.
\<close>

type_synonym code_unit = "16 word"
type_synonym jsstring = "code_unit list"

text \<open>A string literal of the source (all literals of the source are ASCII).\<close>

definition js :: "string \<Rightarrow> jsstring" where
  "js s = map of_char s"

text \<open>
  The code units of the ECMAScript productions WhiteSpace and LineTerminator. This one set
  is what \<open>String.prototype.trim\<close> strips, what \<open>\s\<close> matches in a regular expression
  and what \<open>parseInt\<close> skips at the start of its argument.
\<close>

definition isWhiteSpace :: "code_unit \<Rightarrow> bool" where
  "isWhiteSpace c \<longleftrightarrow>
     c = 0x09 \<or> c = 0x0A \<or> c = 0x0B \<or> c = 0x0C \<or> c = 0x0D \<or> c = 0x20 \<or> c = 0xA0 \<or>
     c = 0x1680 \<or> (0x2000 \<le> c \<and> c \<le> 0x200A) \<or> c = 0x2028 \<or> c = 0x2029 \<or>
     c = 0x202F \<or> c = 0x205F \<or> c = 0x3000 \<or> c = 0xFEFF"

definition trim :: "jsstring \<Rightarrow> jsstring" where
  "trim s = rev (dropWhile isWhiteSpace (rev (dropWhile isWhiteSpace s)))"

text \<open>
  A value of type \<open>string | undefined\<close> is a \<open>jsstring option\<close>, \<open>None\<close> being
  \<open>undefined\<close>. Both \<open>undefined\<close> and the empty string are falsy.
\<close>

definition truthy :: "jsstring option \<Rightarrow> bool" where
  "truthy v = (case v of None \<Rightarrow> False | Some s \<Rightarrow> s \<noteq> [])"

text \<open>
  A plain object is the list of its own properties in insertion order. Assigning a property
  is \<open>AList.update\<close>: an existing key keeps its place, a new key goes last. Reading a
  property that is missing gives \<open>undefined\<close>.
\<close>

type_synonym js_object = "(string \<times> jsstring option) list"

definition get_prop :: "js_object \<Rightarrow> string \<Rightarrow> jsstring option" where
  "get_prop obj k = (case map_of obj k of None \<Rightarrow> None | Some v \<Rightarrow> v)"

definition Object_keys :: "js_object \<Rightarrow> string list" where
  "Object_keys obj = map fst obj"

text \<open>Decimal digits of a natural number and of an integer (\<open>Number.prototype.toString\<close>).\<close>

fun toString_nat :: "nat \<Rightarrow> jsstring" where
  "toString_nat n =
     (if n < 10 then [of_nat (48 + n)]
      else toString_nat (n div 10) @ [of_nat (48 + n mod 10)])"

definition toString_int :: "int \<Rightarrow> jsstring" where
  "toString_int i = (if i < 0 then 0x2D # toString_nat (nat (- i)) else toString_nat (nat i))"

section \<open>Regular expressions\<close>

text \<open>
  The two expressions of the source use character classes, concatenation and \<open>+\<close>, between
  \<open>^\<close> and \<open>$\<close> and without flags, so \<open>test\<close> asks whether the whole string is in the
  language of the pattern. Matching is by derivatives of the pattern.
\<close>

datatype pattern =
    Never
  | Empty
  | Class "code_unit \<Rightarrow> bool"
  | Or pattern pattern
  | Then pattern pattern
  | Star pattern

definition Plus :: "pattern \<Rightarrow> pattern" where
  "Plus p = Then p (Star p)"

fun nullable :: "pattern \<Rightarrow> bool" where
  "nullable Never = False"
| "nullable Empty = True"
| "nullable (Class P) = False"
| "nullable (Or p q) = (nullable p \<or> nullable q)"
| "nullable (Then p q) = (nullable p \<and> nullable q)"
| "nullable (Star p) = True"

fun after :: "code_unit \<Rightarrow> pattern \<Rightarrow> pattern" where
  "after c Never = Never"
| "after c Empty = Never"
| "after c (Class P) = (if P c then Empty else Never)"
| "after c (Or p q) = Or (after c p) (after c q)"
| "after c (Then p q) =
     (if nullable p then Or (Then (after c p) q) (after c q) else Then (after c p) q)"
| "after c (Star p) = Then (after c p) (Star p)"

fun regex_test :: "pattern \<Rightarrow> jsstring \<Rightarrow> bool" where
  "regex_test p [] = nullable p"
| "regex_test p (c # s) = regex_test (after c p) s"

text \<open>The language of a pattern, against which the matcher is checked below.\<close>

inductive_set repeat :: "jsstring set \<Rightarrow> jsstring set" for A :: "jsstring set" where
  none: "[] \<in> repeat A"
| more: "u \<in> A \<Longrightarrow> v \<in> repeat A \<Longrightarrow> u @ v \<in> repeat A"

fun lang :: "pattern \<Rightarrow> jsstring set" where
  "lang Never = {}"
| "lang Empty = {[]}"
| "lang (Class P) = {[c] | c. P c}"
| "lang (Or p q) = lang p \<union> lang q"
| "lang (Then p q) = {u @ v | u v. u \<in> lang p \<and> v \<in> lang q}"
| "lang (Star p) = repeat (lang p)"

text \<open>\<^verbatim>\<open>/^[a-zA-Z\s.,'-]+$/\<close>\<close>

definition textOnlyClass :: "code_unit \<Rightarrow> bool" where
  "textOnlyClass c \<longleftrightarrow>
     (0x61 \<le> c \<and> c \<le> 0x7A) \<or> (0x41 \<le> c \<and> c \<le> 0x5A) \<or> isWhiteSpace c \<or>
     c = 0x2E \<or> c = 0x2C \<or> c = 0x27 \<or> c = 0x2D"

definition textOnlyRegex :: pattern where
  "textOnlyRegex = Plus (Class textOnlyClass)"

text \<open>\<^verbatim>\<open>/^[^\s@]+@[^\s@]+\.[^\s@]+$/\<close>\<close>

definition notSpaceAt :: "code_unit \<Rightarrow> bool" where
  "notSpaceAt c \<longleftrightarrow> \<not> (isWhiteSpace c \<or> c = 0x40)"

definition emailRegex :: pattern where
  "emailRegex =
     Then (Plus (Class notSpaceAt))
       (Then (Class (\<lambda>c. c = 0x40))
         (Then (Plus (Class notSpaceAt))
           (Then (Class (\<lambda>c. c = 0x2E)) (Plus (Class notSpaceAt)))))"

section \<open>State shared by the two form components\<close>

text \<open>Both components keep \<open>formData\<close>, \<open>errors\<close> and \<open>isSubmitting\<close> in React state.\<close>

record 'f form_state =
  formData :: 'f
  errors :: js_object
  isSubmitting :: bool

text \<open>
  \<open>validateTextOnly\<close> is defined with the same body in \<^verbatim>\<open>SignUp.tsx\<close> and in
  \<^verbatim>\<open>CreateLessonModal.tsx\<close>.
\<close>

definition validateTextOnly :: "jsstring \<Rightarrow> jsstring \<Rightarrow> jsstring option" where
  "validateTextOnly v fieldName =
     (if v \<noteq> [] \<and> \<not> regex_test textOnlyRegex v
      then Some (fieldName @ js '' can only contain letters, spaces, and basic punctuation'')
      else None)"

text \<open>
  An \<open>async\<close> handler either returns before its \<open>await\<close> or is suspended there on a
  timer of the given number of milliseconds; the component renders the suspended state.
\<close>

datatype 'w suspended = Returned 'w | Awaiting nat 'w

section \<open>The sign-up page (\<^verbatim>\<open>src/pages/SignUp.tsx\<close>)\<close>

datatype role = Student | Teacher

definition role_string :: "role \<Rightarrow> jsstring" where
  "role_string r = (case r of Student \<Rightarrow> js ''student'' | Teacher \<Rightarrow> js ''teacher'')"

record FormData =
  name :: jsstring
  email :: jsstring
  password :: jsstring
  confirmPassword :: jsstring
  role :: role
  grade :: "jsstring option"
  school :: "jsstring option"
  state :: "jsstring option"

record signup_state = "FormData form_state" +
  showPassword :: bool
  showConfirmPassword :: bool
  isSuccess :: bool

subsection \<open>\<open>validateForm\<close>\<close>

text \<open>
  \<open>validateForm\<close> fills a fresh object \<open>newErrors\<close>, one block of the source after the
  other; each block below takes the object built so far.
\<close>

definition validate_name :: "FormData \<Rightarrow> js_object \<Rightarrow> js_object" where
  "validate_name fd newErrors =
     (if trim (name fd) = [] then AList.update ''name'' (Some (js ''Name is required'')) newErrors
      else let textError = validateTextOnly (name fd) (js ''Name'')
           in if truthy textError then AList.update ''name'' textError newErrors else newErrors)"

definition validate_email :: "FormData \<Rightarrow> js_object \<Rightarrow> js_object" where
  "validate_email fd newErrors =
     (if trim (email fd) = [] then AList.update ''email'' (Some (js ''Email is required'')) newErrors
      else if \<not> regex_test emailRegex (email fd)
        then AList.update ''email'' (Some (js ''Please enter a valid email address'')) newErrors
      else newErrors)"

definition validate_password :: "FormData \<Rightarrow> js_object \<Rightarrow> js_object" where
  "validate_password fd newErrors =
     (if password fd = [] then AList.update ''password'' (Some (js ''Password is required'')) newErrors
      else if length (password fd) < 6
        then AList.update ''password''
               (Some (js ''Password must be at least 6 characters long'')) newErrors
      else newErrors)"

definition validate_confirmPassword :: "FormData \<Rightarrow> js_object \<Rightarrow> js_object" where
  "validate_confirmPassword fd newErrors =
     (if confirmPassword fd = []
        then AList.update ''confirmPassword'' (Some (js ''Please confirm your password'')) newErrors
      else if password fd \<noteq> confirmPassword fd
        then AList.update ''confirmPassword'' (Some (js ''Passwords do not match'')) newErrors
      else newErrors)"

definition validate_grade :: "FormData \<Rightarrow> js_object \<Rightarrow> js_object" where
  "validate_grade fd newErrors =
     (if role fd = Student then
        (if \<not> truthy (grade fd)
         then AList.update ''grade'' (Some (js ''Grade is required for students'')) newErrors
         else newErrors)
      else newErrors)"

definition validate_school :: "FormData \<Rightarrow> js_object \<Rightarrow> js_object" where
  "validate_school fd newErrors =
     (case school fd of
        None \<Rightarrow> newErrors
      | Some v \<Rightarrow>
          if v \<noteq> [] then
            (let textError = validateTextOnly v (js ''School name'')
             in if truthy textError then AList.update ''school'' textError newErrors
                else newErrors)
          else newErrors)"

definition signup_newErrors :: "FormData \<Rightarrow> js_object" where
  "signup_newErrors fd =
     validate_school fd (validate_grade fd (validate_confirmPassword fd
       (validate_password fd (validate_email fd (validate_name fd [])))))"

text \<open>The result is the returned boolean and the state after \<open>setErrors(newErrors)\<close>.\<close>

definition signup_validateForm :: "signup_state \<Rightarrow> bool \<times> signup_state" where
  "signup_validateForm st =
     (let newErrors = signup_newErrors (formData st)
      in (length (Object_keys newErrors) = 0, st\<lparr>errors := newErrors\<rparr>))"

section \<open>The lesson modal (\<^verbatim>\<open>src/components/CreateLessonModal.tsx\<close>)\<close>

record LessonFormData =
  title :: jsstring
  subject :: jsstring
  description :: jsstring
  duration :: int
  objectives :: "jsstring list"
  difficulty :: jsstring
  category :: jsstring
  prerequisites :: jsstring
  materials :: "jsstring list"

type_synonym lesson_state = "LessonFormData form_state"

text \<open>The value given to \<open>useState\<close>, to which \<open>handleSubmit\<close> and \<open>handleClose\<close> reset.\<close>

definition initialFormData :: LessonFormData where
  "initialFormData =
     \<lparr>title = [], subject = [], description = [], duration = 30, objectives = [[]],
      difficulty = js ''Beginner'', category = [], prerequisites = [], materials = [[]]\<rparr>"

definition initial_lesson_state :: lesson_state where
  "initial_lesson_state = \<lparr>formData = initialFormData, errors = [], isSubmitting = False\<rparr>"

subsection \<open>\<open>validateForm\<close>\<close>

definition validate_title :: "LessonFormData \<Rightarrow> js_object \<Rightarrow> js_object" where
  "validate_title fd newErrors =
     (if trim (title fd) = []
        then AList.update ''title'' (Some (js ''Lesson title is required'')) newErrors
      else let textError = validateTextOnly (title fd) (js ''Title'')
           in if truthy textError then AList.update ''title'' textError newErrors else newErrors)"

definition validate_subject :: "LessonFormData \<Rightarrow> js_object \<Rightarrow> js_object" where
  "validate_subject fd newErrors =
     (if trim (subject fd) = []
        then AList.update ''subject'' (Some (js ''Subject is required'')) newErrors
      else newErrors)"

definition validate_description :: "LessonFormData \<Rightarrow> js_object \<Rightarrow> js_object" where
  "validate_description fd newErrors =
     (if trim (description fd) = []
        then AList.update ''description'' (Some (js ''Description is required'')) newErrors
      else if length (description fd) < 20
        then AList.update ''description''
               (Some (js ''Description must be at least 20 characters long'')) newErrors
      else newErrors)"

definition validate_duration :: "LessonFormData \<Rightarrow> js_object \<Rightarrow> js_object" where
  "validate_duration fd newErrors =
     (if duration fd < 15 \<or> duration fd > 180
        then AList.update ''duration''
               (Some (js ''Duration must be between 15 and 180 minutes'')) newErrors
      else newErrors)"

definition validate_objectives :: "LessonFormData \<Rightarrow> js_object \<Rightarrow> js_object" where
  "validate_objectives fd newErrors =
     (let validObjectives = filter (\<lambda>obj. trim obj \<noteq> []) (objectives fd)
      in if length validObjectives = 0
           then AList.update ''objectives''
                  (Some (js ''At least one learning objective is required'')) newErrors
         else newErrors)"

definition validate_category :: "LessonFormData \<Rightarrow> js_object \<Rightarrow> js_object" where
  "validate_category fd newErrors =
     (if trim (category fd) = []
        then AList.update ''category'' (Some (js ''Category is required'')) newErrors
      else newErrors)"

definition lesson_newErrors :: "LessonFormData \<Rightarrow> js_object" where
  "lesson_newErrors fd =
     validate_category fd (validate_objectives fd (validate_duration fd
       (validate_description fd (validate_subject fd (validate_title fd [])))))"

definition lesson_validateForm :: "lesson_state \<Rightarrow> bool \<times> lesson_state" where
  "lesson_validateForm st =
     (let newErrors = lesson_newErrors (formData st)
      in (length (Object_keys newErrors) = 0, st\<lparr>errors := newErrors\<rparr>))"

section \<open>Effects\<close>

text \<open>
  What a handler does to the outside (the event, the console, browser storage, timers, the
  callbacks passed as props) is recorded, in order, in the \<open>effects\<close> of the world it runs
  in.
\<close>

text \<open>
  The value handed to \<open>localStorage.setItem\<close> is \<open>JSON.stringify\<close> of an object whose
  property values are strings or \<open>undefined\<close>. \<open>JSON.stringify\<close> leaves out the
  properties whose value is \<open>undefined\<close> and writes the others in order; the text itself
  (quoting and escapes) is not modelled, the stored value is the list of properties written.
\<close>

type_synonym json_object = "(string \<times> jsstring) list"

definition JSON_stringify :: "js_object \<Rightarrow> json_object" where
  "JSON_stringify obj =
     concat (map (\<lambda>(k, v). case v of None \<Rightarrow> [] | Some s \<Rightarrow> [(k, s)]) obj)"

text \<open>
  \<open>ConsoleLog\<close> and \<open>ConsoleError\<close> keep the first argument of the call.
  \<open>SetTimeoutNavigate ms path\<close> is \<open>setTimeout(() => navigate(path), ms)\<close>.
\<close>

datatype effect =
    PreventDefault
  | ConsoleLog jsstring
  | ConsoleError jsstring
  | StorageSetItem jsstring json_object
  | SetTimeoutNavigate nat jsstring
  | OnSave LessonFormData
  | OnClose

record 's world =
  component :: 's
  effects :: "effect list"

definition emit :: "effect \<Rightarrow> 's world \<Rightarrow> 's world" where
  "emit e w = w\<lparr>effects := effects w @ [e]\<rparr>"

definition set_component :: "('s \<Rightarrow> 's) \<Rightarrow> 's world \<Rightarrow> 's world" where
  "set_component f w = w\<lparr>component := f (component w)\<rparr>"

definition isStorageWrite :: "effect \<Rightarrow> bool" where
  "isStorageWrite e = (case e of StorageSetItem k v \<Rightarrow> True | _ \<Rightarrow> False)"

definition isNavigation :: "effect \<Rightarrow> bool" where
  "isNavigation e = (case e of SetTimeoutNavigate ms p \<Rightarrow> True | _ \<Rightarrow> False)"

definition isOnSave :: "effect \<Rightarrow> bool" where
  "isOnSave e = (case e of OnSave d \<Rightarrow> True | _ \<Rightarrow> False)"

section \<open>Sign-up: \<open>handleSubmit\<close>\<close>

text \<open>
  What the handler reads from the browser: \<open>Date.now()\<close>, \<open>new Date().toISOString()\<close>, and
  whether \<open>localStorage.setItem\<close> throws (storage full or disabled), the one statement of
  the \<open>try\<close> block that can.
\<close>

record signup_env =
  date_now :: nat
  date_iso :: jsstring
  setItem_throws :: bool

definition userData :: "signup_env \<Rightarrow> FormData \<Rightarrow> js_object" where
  "userData env fd =
     [(''id'', Some (toString_nat (date_now env))),
      (''name'', Some (name fd)),
      (''email'', Some (email fd)),
      (''role'', Some (role_string (role fd)))]
     @ (if role fd = Student then [(''grade'', grade fd)] else [])
     @ (if truthy (school fd) then [(''school'', school fd)] else [])
     @ (if truthy (state fd) then [(''state'', state fd)] else [])
     @ [(''joinDate'', Some (date_iso env))]"

text \<open>The handler up to its \<open>await\<close>.\<close>

definition signup_handleSubmit_sync :: "signup_state world \<Rightarrow> signup_state world suspended" where
  "signup_handleSubmit_sync w =
     (let w0 = emit PreventDefault w;
          (ok, st1) = signup_validateForm (component w0)
      in if \<not> ok then Returned (w0\<lparr>component := st1\<rparr>)
         else Awaiting 2000 (w0\<lparr>component := st1\<lparr>isSubmitting := True, errors := []\<rparr>\<rparr>))"

text \<open>
  The handler from the end of the timer on; \<open>fd\<close> is the \<open>formData\<close> of the render that
  created the handler.
\<close>

definition signup_handleSubmit_resume ::
  "signup_env \<Rightarrow> FormData \<Rightarrow> signup_state world \<Rightarrow> signup_state world" where
  "signup_handleSubmit_resume env fd w =
     (let w1 = emit (ConsoleLog (js ''Registration successful:'')) w;
          w2 = (if setItem_throws env then
                  set_component (\<lambda>st. st\<lparr>errors :=
                      [(''general'', Some (js ''Registration failed. Please try again.''))]\<rparr>)
                    (emit (ConsoleError (js ''Registration error:'')) w1)
                else
                  emit (SetTimeoutNavigate 2000
                          (if role fd = Student then js ''/dashboard'' else js ''/teacher''))
                    (set_component (\<lambda>st. st\<lparr>isSuccess := True\<rparr>)
                      (emit (StorageSetItem (js ''currentUser'')
                               (JSON_stringify (userData env fd))) w1)))
      in set_component (\<lambda>st. st\<lparr>isSubmitting := False\<rparr>) w2)"

text \<open>
  One run of \<open>handleSubmit\<close>: the world when it returns at once, or the world while it waits
  followed by the world when it has finished.
\<close>

definition signup_handleSubmit :: "signup_env \<Rightarrow> signup_state world \<Rightarrow> signup_state world list" where
  "signup_handleSubmit env w =
     (case signup_handleSubmit_sync w of
        Returned w' \<Rightarrow> [w']
      | Awaiting ms w' \<Rightarrow> [w', signup_handleSubmit_resume env (formData (component w)) w'])"

text \<open>
  The phase of the submission flow that the page shows for a state: the success screen
  replaces the form when \<open>isSuccess\<close> holds, the submit button is a spinner while
  \<open>isSubmitting\<close> holds, and the banner with \<open>errors.general\<close> is shown when it is set.
\<close>

datatype flow = Idle | Submitting | Success | Failed

definition flow_of :: "signup_state \<Rightarrow> flow" where
  "flow_of st =
     (if isSuccess st then Success
      else if isSubmitting st then Submitting
      else if truthy (get_prop (errors st) ''general'') then Failed
      else Idle)"

section \<open>Lesson modal: the handlers\<close>

subsection \<open>\<open>parseInt\<close>\<close>

text \<open>
  \<open>parseInt(string)\<close> with no radix: skip leading white space, take a sign, take the prefix
  \<open>0x\<close> or \<open>0X\<close> as radix 16 and radix 10 otherwise, then read the longest run of digits
  of that radix. \<open>None\<close> is \<open>NaN\<close>. The result is the exact integer: JavaScript rounds an
  integer beyond \<open>2^53\<close> to a double, which changes no comparison with 15 or 180.
\<close>

definition digitValue :: "code_unit \<Rightarrow> nat option" where
  "digitValue c =
     (if 0x30 \<le> c \<and> c \<le> 0x39 then Some (unat c - 0x30)
      else if 0x61 \<le> c \<and> c \<le> 0x7A then Some (unat c - 0x61 + 10)
      else if 0x41 \<le> c \<and> c \<le> 0x5A then Some (unat c - 0x41 + 10)
      else None)"

definition isRadixDigit :: "nat \<Rightarrow> code_unit \<Rightarrow> bool" where
  "isRadixDigit R c = (case digitValue c of None \<Rightarrow> False | Some d \<Rightarrow> d < R)"

definition digitsValue :: "nat \<Rightarrow> jsstring \<Rightarrow> int" where
  "digitsValue R Z =
     foldl (\<lambda>acc c. acc * int R + (case digitValue c of None \<Rightarrow> 0 | Some d \<Rightarrow> int d)) 0 Z"

definition stripSign :: "jsstring \<Rightarrow> int \<times> jsstring" where
  "stripSign S =
     (case S of
        [] \<Rightarrow> (1, [])
      | c # rest \<Rightarrow> if c = 0x2D then (- 1, rest) else if c = 0x2B then (1, rest) else (1, S))"

definition stripPrefix :: "jsstring \<Rightarrow> nat \<times> jsstring" where
  "stripPrefix S =
     (case S of
        c # d # rest \<Rightarrow> if c = 0x30 \<and> (d = 0x78 \<or> d = 0x58) then (16, rest) else (10, S)
      | _ \<Rightarrow> (10, S))"

definition parseInt :: "jsstring \<Rightarrow> int option" where
  "parseInt inputString =
     (let (sign, S) = stripSign (dropWhile isWhiteSpace inputString);
          (R, S') = stripPrefix S;
          Z = takeWhile (isRadixDigit R) S'
      in if Z = [] then None else Some (sign * digitsValue R Z))"

text \<open>\<open>parseInt(value) || 0\<close>: \<open>NaN\<close> and zero are falsy.\<close>

definition parseInt_or_0 :: "jsstring \<Rightarrow> int" where
  "parseInt_or_0 v = (case parseInt v of None \<Rightarrow> 0 | Some n \<Rightarrow> if n = 0 then 0 else n)"

subsection \<open>\<open>handleChange\<close>\<close>

text \<open>The inputs wired to \<open>handleChange\<close>, by their \<open>name\<close> attribute.\<close>

datatype lesson_field =
  FTitle | FSubject | FDescription | FDuration | FDifficulty | FCategory | FPrerequisites

definition field_name :: "lesson_field \<Rightarrow> string" where
  "field_name f =
     (case f of FTitle \<Rightarrow> ''title'' | FSubject \<Rightarrow> ''subject'' | FDescription \<Rightarrow> ''description''
      | FDuration \<Rightarrow> ''duration'' | FDifficulty \<Rightarrow> ''difficulty'' | FCategory \<Rightarrow> ''category''
      | FPrerequisites \<Rightarrow> ''prerequisites'')"

definition set_field :: "lesson_field \<Rightarrow> jsstring \<Rightarrow> LessonFormData \<Rightarrow> LessonFormData" where
  "set_field f v prev =
     (case f of
        FTitle \<Rightarrow> prev\<lparr>title := v\<rparr>
      | FSubject \<Rightarrow> prev\<lparr>subject := v\<rparr>
      | FDescription \<Rightarrow> prev\<lparr>description := v\<rparr>
      | FDuration \<Rightarrow> prev\<lparr>duration := parseInt_or_0 v\<rparr>
      | FDifficulty \<Rightarrow> prev\<lparr>difficulty := v\<rparr>
      | FCategory \<Rightarrow> prev\<lparr>category := v\<rparr>
      | FPrerequisites \<Rightarrow> prev\<lparr>prerequisites := v\<rparr>)"

definition lesson_handleChange :: "lesson_field \<Rightarrow> jsstring \<Rightarrow> lesson_state \<Rightarrow> lesson_state" where
  "lesson_handleChange f v st =
     (let errs1 =
            (if f = FTitle then
               (let textError = validateTextOnly v (js ''Title'')
                in if truthy textError then AList.update (field_name f) textError (errors st)
                   else AList.update (field_name f) None (errors st))
             else errors st);
          fd = set_field f v (formData st);
          errs2 =
            (if truthy (get_prop (errors st) (field_name f))
             then AList.update (field_name f) None errs1 else errs1)
      in st\<lparr>formData := fd, errors := errs2\<rparr>)"

subsection \<open>Objectives and materials\<close>

text \<open>\<open>array.filter((_, i) => i !== index)\<close>\<close>

definition remove_index :: "nat \<Rightarrow> 'a list \<Rightarrow> 'a list" where
  "remove_index index xs = map snd (filter (\<lambda>(i, x). i \<noteq> index) (enumerate 0 xs))"

text \<open>
  The inputs are rendered from the list itself, so \<open>handleObjectiveChange\<close> and
  \<open>handleMaterialChange\<close> are called with the index of an existing entry. An index past
  the end, where JavaScript would lengthen the array and leave holes, is outside the model:
  the result is \<open>None\<close>.
\<close>

definition handleObjectiveChange :: "nat \<Rightarrow> jsstring \<Rightarrow> lesson_state \<Rightarrow> lesson_state option" where
  "handleObjectiveChange index v st =
     (if index < length (objectives (formData st)) then
        (let newObjectives = (objectives (formData st))[index := v];
             errs = (if truthy (get_prop (errors st) ''objectives'')
                     then AList.update ''objectives'' None (errors st) else errors st)
         in Some (st\<lparr>formData := (formData st)\<lparr>objectives := newObjectives\<rparr>, errors := errs\<rparr>))
      else None)"

definition addObjective :: "lesson_state \<Rightarrow> lesson_state" where
  "addObjective st = st\<lparr>formData := (formData st)\<lparr>objectives := objectives (formData st) @ [[]]\<rparr>\<rparr>"

definition removeObjective :: "nat \<Rightarrow> lesson_state \<Rightarrow> lesson_state" where
  "removeObjective index st =
     (if length (objectives (formData st)) > 1 then
        (let newObjectives = remove_index index (objectives (formData st))
         in st\<lparr>formData := (formData st)\<lparr>objectives := newObjectives\<rparr>\<rparr>)
      else st)"

definition handleMaterialChange :: "nat \<Rightarrow> jsstring \<Rightarrow> lesson_state \<Rightarrow> lesson_state option" where
  "handleMaterialChange index v st =
     (if index < length (materials (formData st)) then
        (let newMaterials = (materials (formData st))[index := v]
         in Some (st\<lparr>formData := (formData st)\<lparr>materials := newMaterials\<rparr>\<rparr>))
      else None)"

definition addMaterial :: "lesson_state \<Rightarrow> lesson_state" where
  "addMaterial st = st\<lparr>formData := (formData st)\<lparr>materials := materials (formData st) @ [[]]\<rparr>\<rparr>"

definition removeMaterial :: "nat \<Rightarrow> lesson_state \<Rightarrow> lesson_state" where
  "removeMaterial index st =
     (if length (materials (formData st)) > 1 then
        (let newMaterials = remove_index index (materials (formData st))
         in st\<lparr>formData := (formData st)\<lparr>materials := newMaterials\<rparr>\<rparr>)
      else st)"

subsection \<open>\<open>handleSubmit\<close> and \<open>handleClose\<close>\<close>

text \<open>
  \<open>onSave\<close> and \<open>onClose\<close> are props; the \<open>try\<close> block of \<open>handleSubmit\<close> catches what
  they throw, so whether they throw is part of the environment of a run.
\<close>

record lesson_env =
  onSave_throws :: bool
  onClose_throws :: bool

definition cleanedData :: "LessonFormData \<Rightarrow> LessonFormData" where
  "cleanedData fd =
     fd\<lparr>objectives := filter (\<lambda>obj. trim obj \<noteq> []) (objectives fd),
        materials := filter (\<lambda>mat. trim mat \<noteq> []) (materials fd)\<rparr>"

definition lesson_handleSubmit_sync :: "lesson_state world \<Rightarrow> lesson_state world suspended" where
  "lesson_handleSubmit_sync w =
     (let w0 = emit PreventDefault w;
          (ok, st1) = lesson_validateForm (component w0)
      in if \<not> ok then Returned (w0\<lparr>component := st1\<rparr>)
         else Awaiting 1500 (w0\<lparr>component := st1\<lparr>isSubmitting := True\<rparr>\<rparr>))"

definition lesson_handleSubmit_resume ::
  "lesson_env \<Rightarrow> LessonFormData \<Rightarrow> lesson_state world \<Rightarrow> lesson_state world" where
  "lesson_handleSubmit_resume env fd w =
     (let w1 = emit (OnSave (cleanedData fd)) w;
          w2 = (if onSave_throws env then emit (ConsoleError (js ''Error creating lesson:'')) w1
                else
                  (let w3 = emit OnClose (set_component (\<lambda>st. st\<lparr>formData := initialFormData\<rparr>) w1)
                   in if onClose_throws env
                      then emit (ConsoleError (js ''Error creating lesson:'')) w3 else w3))
      in set_component (\<lambda>st. st\<lparr>isSubmitting := False\<rparr>) w2)"

definition lesson_handleSubmit :: "lesson_env \<Rightarrow> lesson_state world \<Rightarrow> lesson_state world list" where
  "lesson_handleSubmit env w =
     (case lesson_handleSubmit_sync w of
        Returned w' \<Rightarrow> [w']
      | Awaiting ms w' \<Rightarrow> [w', lesson_handleSubmit_resume env (formData (component w)) w'])"

definition handleClose :: "lesson_state world \<Rightarrow> lesson_state world" where
  "handleClose w =
     emit OnClose (set_component (\<lambda>st. st\<lparr>formData := initialFormData, errors := []\<rparr>) w)"

subsection \<open>The states the modal can be in\<close>

text \<open>
  Every handler of the modal is a step. The part of \<open>handleSubmit\<close> after the timer is a
  step of its own, from any state and for any form data it may have captured, so that user
  input during the wait is covered.
\<close>

inductive reachable :: "lesson_state world \<Rightarrow> bool" where
  init: "reachable \<lparr>component = initial_lesson_state, effects = []\<rparr>"
| change: "reachable w \<Longrightarrow> reachable (set_component (lesson_handleChange f v) w)"
| objective_change:
    "reachable w \<Longrightarrow> handleObjectiveChange i v (component w) = Some st \<Longrightarrow> reachable (w\<lparr>component := st\<rparr>)"
| add_objective: "reachable w \<Longrightarrow> reachable (set_component addObjective w)"
| remove_objective: "reachable w \<Longrightarrow> reachable (set_component (removeObjective i) w)"
| material_change:
    "reachable w \<Longrightarrow> handleMaterialChange i v (component w) = Some st \<Longrightarrow> reachable (w\<lparr>component := st\<rparr>)"
| add_material: "reachable w \<Longrightarrow> reachable (set_component addMaterial w)"
| remove_material: "reachable w \<Longrightarrow> reachable (set_component (removeMaterial i) w)"
| submit_returned: "reachable w \<Longrightarrow> lesson_handleSubmit_sync w = Returned w' \<Longrightarrow> reachable w'"
| submit_waiting: "reachable w \<Longrightarrow> lesson_handleSubmit_sync w = Awaiting ms w' \<Longrightarrow> reachable w'"
| submit_resumed: "reachable w \<Longrightarrow> reachable (lesson_handleSubmit_resume env fd w)"
| close: "reachable w \<Longrightarrow> reachable (handleClose w)"

section \<open>The student detail modal (second component of \<^verbatim>\<open>CreateLessonModal.tsx\<close>)\<close>

record Student =
  studentId :: jsstring
  studentName :: jsstring
  studentGrade :: jsstring
  ecoPoints :: int
  completedChallenges :: int
  streak :: int
  avatar :: jsstring
  studentSchool :: jsstring
  studentState :: jsstring
  joinDate :: "jsstring option"
  level :: "int option"
  completedLessons :: "int option"
  badges :: "int option"

text \<open>
  \<open>performanceData\<close>, as the pairs of \<open>label\<close> and \<open>value\<close> that the modal renders (the
  icon and the colour classes are left out). \<open>Number.prototype.toLocaleString\<close> is the
  host's formatter for the user's locale and is a parameter.
\<close>

definition performanceData :: "(int \<Rightarrow> jsstring) \<Rightarrow> Student \<Rightarrow> (jsstring \<times> jsstring) list" where
  "performanceData toLocaleString student =
     [(js ''Eco Points'', toLocaleString (ecoPoints student)),
      (js ''Current Level'',
         toString_int (case level student of
                         None \<Rightarrow> ecoPoints student div 200 + 1
                       | Some l \<Rightarrow> if l \<noteq> 0 then l else ecoPoints student div 200 + 1)),
      (js ''Challenges Completed'', toString_int (completedChallenges student)),
      (js ''Current Streak'', toString_int (streak student) @ js '' days'')]"

text \<open>The values rendered under a label.\<close>

definition displayed :: "jsstring \<Rightarrow> (jsstring \<times> jsstring) list \<Rightarrow> jsstring list" where
  "displayed l metrics = map snd (filter (\<lambda>(l', v). l' = l) metrics)"

text \<open>
  \<open>Number.prototype.toLocaleString()\<close> of an integer on a host whose locale is en-US: the
  decimal digits in groups of three counted from the right, with a comma between the
  groups, after a minus sign for a negative number. \<open>commas\<close> works on the digits in
  reverse.
\<close>

fun commas :: "jsstring \<Rightarrow> jsstring" where
  "commas (a # b # c # d # rest) = a # b # c # 0x2C # commas (d # rest)"
| "commas s = s"

definition group3 :: "jsstring \<Rightarrow> jsstring" where
  "group3 digits = rev (commas (rev digits))"

definition toLocaleString_enUS :: "int \<Rightarrow> jsstring" where
  "toLocaleString_enUS i =
     (if i < 0 then 0x2D # group3 (toString_nat (nat (- i))) else group3 (toString_nat (nat i)))"

section \<open>The checks, field by field\<close>

text \<open>
  The field-level checks of the sign-up form, worded as the specification lists them. A
  field of type \<open>string | undefined\<close> is present when it is truthy.
\<close>

definition name_check :: "FormData \<Rightarrow> bool" where
  "name_check fd \<longleftrightarrow> trim (name fd) \<noteq> [] \<and> regex_test textOnlyRegex (name fd)"

definition email_check :: "FormData \<Rightarrow> bool" where
  "email_check fd \<longleftrightarrow> trim (email fd) \<noteq> [] \<and> regex_test emailRegex (email fd)"

definition password_check :: "FormData \<Rightarrow> bool" where
  "password_check fd \<longleftrightarrow> password fd \<noteq> [] \<and> 6 \<le> length (password fd)"

definition confirmPassword_check :: "FormData \<Rightarrow> bool" where
  "confirmPassword_check fd \<longleftrightarrow> confirmPassword fd \<noteq> [] \<and> confirmPassword fd = password fd"

definition grade_check :: "FormData \<Rightarrow> bool" where
  "grade_check fd \<longleftrightarrow> (role fd = Student \<longrightarrow> truthy (grade fd))"

definition school_check :: "FormData \<Rightarrow> bool" where
  "school_check fd \<longleftrightarrow>
     (case school fd of None \<Rightarrow> True | Some v \<Rightarrow> v \<noteq> [] \<longrightarrow> regex_test textOnlyRegex v)"

text \<open>The checks of the lesson form.\<close>

definition title_check :: "LessonFormData \<Rightarrow> bool" where
  "title_check fd \<longleftrightarrow> trim (title fd) \<noteq> [] \<and> regex_test textOnlyRegex (title fd)"

definition subject_check :: "LessonFormData \<Rightarrow> bool" where
  "subject_check fd \<longleftrightarrow> trim (subject fd) \<noteq> []"

definition description_check :: "LessonFormData \<Rightarrow> bool" where
  "description_check fd \<longleftrightarrow> trim (description fd) \<noteq> [] \<and> 20 \<le> length (description fd)"

definition duration_check :: "LessonFormData \<Rightarrow> bool" where
  "duration_check fd \<longleftrightarrow> 15 \<le> duration fd \<and> duration fd \<le> 180"

definition objectives_check :: "LessonFormData \<Rightarrow> bool" where
  "objectives_check fd \<longleftrightarrow> list_ex (\<lambda>obj. trim obj \<noteq> []) (objectives fd)"

definition category_check :: "LessonFormData \<Rightarrow> bool" where
  "category_check fd \<longleftrightarrow> trim (category fd) \<noteq> []"

text \<open>The record that a successful sign-up writes to storage.\<close>

abbreviation currentUser_record :: "signup_env \<Rightarrow> FormData \<Rightarrow> json_object" where
  "currentUser_record env fd \<equiv> JSON_stringify (userData env fd)"

text \<open>Both lists of the lesson form have an entry.\<close>

definition lists_nonempty :: "lesson_state \<Rightarrow> bool" where
  "lists_nonempty st \<longleftrightarrow>
     1 \<le> length (objectives (formData st)) \<and> 1 \<le> length (materials (formData st))"

text \<open>Every lesson handed to \<open>onSave\<close> in a list of effects has a duration in range.\<close>

definition savedDurationsInRange :: "effect list \<Rightarrow> bool" where
  "savedDurationsInRange es =
     list_all (\<lambda>e. case e of OnSave d \<Rightarrow> 15 \<le> duration d \<and> duration d \<le> 180 | _ \<Rightarrow> True) es"

section \<open>Example inputs\<close>

text \<open>Sign-up: a student and a teacher, the page as first rendered, a browser.\<close>

definition alice :: FormData where
  "alice = \<lparr>name = js ''Alice Roy'', email = js ''alice@example.com'', password = js ''secret1'',
            confirmPassword = js ''secret1'', role = Student, grade = Some (js ''8th''),
            school = Some (js ''St. Mary's''), state = None\<rparr>"

definition tara :: FormData where
  "tara = \<lparr>name = js ''Tara Sen'', email = js ''t@s.in'', password = js ''orchid'',
           confirmPassword = js ''orchid'', role = Teacher, grade = None,
           school = None, state = Some (js ''Goa'')\<rparr>"

definition signup_initial :: "FormData \<Rightarrow> signup_state" where
  "signup_initial fd = \<lparr>formData = fd, errors = [], isSubmitting = False, showPassword = False,
     showConfirmPassword = False, isSuccess = False\<rparr>"

definition valid_world :: "FormData \<Rightarrow> signup_state world" where
  "valid_world fd = \<lparr>component = signup_initial fd, effects = []\<rparr>"

definition browser :: signup_env where
  "browser = \<lparr>date_now = 1700000000000, date_iso = js ''2023-11-14T22:13:20.000Z'',
              setItem_throws = False\<rparr>"

text \<open>Lesson modal: a lesson, the modal holding it, a parent whose callbacks return.\<close>

definition wetlands :: LessonFormData where
  "wetlands =
     \<lparr>title = js ''Wetlands'', subject = js ''Ecology'',
      description = js ''How wetlands clean water.'', duration = 45,
      objectives = [js '' '', js ''Name two wetland plants''], difficulty = js ''Beginner'',
      category = js ''Theory'', prerequisites = [], materials = [js ''Map'', []]\<rparr>"

definition lesson_form :: "LessonFormData \<Rightarrow> lesson_state" where
  "lesson_form fd = \<lparr>formData = fd, errors = [], isSubmitting = False\<rparr>"

definition lesson_world :: "LessonFormData \<Rightarrow> lesson_state world" where
  "lesson_world fd = \<lparr>component = lesson_form fd, effects = []\<rparr>"

definition parent_ok :: lesson_env where
  "parent_ok = \<lparr>onSave_throws = False, onClose_throws = False\<rparr>"

definition opened :: "lesson_state world" where
  "opened = \<lparr>component = initial_lesson_state, effects = []\<rparr>"

text \<open>Two student records.\<close>

definition mira :: Student where
  "mira = \<lparr>studentId = js ''s1'', studentName = js ''Mira'', studentGrade = js ''8th'',
           ecoPoints = 1250, completedChallenges = 7, streak = 3, avatar = js ''a.png'',
           studentSchool = js ''Hill School'', studentState = js ''Goa'', joinDate = None,
           level = None, completedLessons = None, badges = None\<rparr>"

definition ravi :: Student where
  "ravi = mira\<lparr>studentName := js ''Ravi'', ecoPoints := 750, level := Some 4\<rparr>"

section \<open>The matcher decides the language of the pattern\<close>

lemma nullable_lang: "nullable p \<longleftrightarrow> [] \<in> lang p"
  by (induction p) (auto intro: repeat.none)

lemma repeat_Cons_dest:
  assumes "x \<in> repeat A" and "x = c # w"
  shows "\<exists>u v. w = u @ v \<and> c # u \<in> A \<and> v \<in> repeat A"
  using assms
proof (induction rule: repeat.induct)
  case none
  then show ?case by simp
next
  case (more u v)
  show ?case
  proof (cases u)
    case Nil
    with more show ?thesis by simp
  next
    case (Cons d u')
    with more.prems have "d = c" and "w = u' @ v" by simp_all
    with more.hyps Cons show ?thesis by blast
  qed
qed

lemma repeat_Cons:
  "c # w \<in> repeat A \<longleftrightarrow> (\<exists>u v. w = u @ v \<and> c # u \<in> A \<and> v \<in> repeat A)"
proof
  assume "c # w \<in> repeat A"
  then show "\<exists>u v. w = u @ v \<and> c # u \<in> A \<and> v \<in> repeat A"
    by (rule repeat_Cons_dest) simp
next
  assume "\<exists>u v. w = u @ v \<and> c # u \<in> A \<and> v \<in> repeat A"
  then obtain u v where "w = u @ v" "c # u \<in> A" "v \<in> repeat A" by blast
  then show "c # w \<in> repeat A"
    using repeat.more [of "c # u" A v] by simp
qed

lemma Cons_in_concat:
  "c # w \<in> {u @ v | u v. u \<in> A \<and> v \<in> B} \<longleftrightarrow>
     ([] \<in> A \<and> c # w \<in> B) \<or> (\<exists>u v. w = u @ v \<and> c # u \<in> A \<and> v \<in> B)"
  (is "?L \<longleftrightarrow> ?R")
proof
  assume ?L
  then obtain u v where uv: "c # w = u @ v" "u \<in> A" "v \<in> B" by blast
  show ?R
  proof (cases u)
    case Nil
    with uv show ?thesis by simp
  next
    case (Cons d u')
    with uv have "c # u' \<in> A" "w = u' @ v" by simp_all
    with uv show ?thesis by blast
  qed
next
  assume ?R
  then show ?L
  proof
    assume "[] \<in> A \<and> c # w \<in> B"
    then have "c # w = [] @ (c # w) \<and> [] \<in> A \<and> c # w \<in> B" by simp
    then show ?L by blast
  next
    assume "\<exists>u v. w = u @ v \<and> c # u \<in> A \<and> v \<in> B"
    then obtain u v where "w = u @ v" "c # u \<in> A" "v \<in> B" by blast
    then have "c # w = (c # u) @ v \<and> c # u \<in> A \<and> v \<in> B" by simp
    then show ?L by blast
  qed
qed

lemma lang_after: "w \<in> lang (after c p) \<longleftrightarrow> c # w \<in> lang p"
proof (induction p arbitrary: w)
  case Never
  show ?case by simp
next
  case Empty
  show ?case by simp
next
  case (Class P)
  show ?case by simp
next
  case (Or p q)
  then show ?case by simp
next
  case (Then p q)
  have "w \<in> lang (after c (Then p q)) \<longleftrightarrow>
        ([] \<in> lang p \<and> c # w \<in> lang q) \<or>
        (\<exists>u v. w = u @ v \<and> c # u \<in> lang p \<and> v \<in> lang q)"
    by (cases "nullable p") (simp_all add: nullable_lang Then disj_commute)
  then show ?case
    unfolding lang.simps Cons_in_concat .
next
  case (Star p)
  have "w \<in> lang (after c (Star p)) \<longleftrightarrow>
        (\<exists>u v. w = u @ v \<and> c # u \<in> lang p \<and> v \<in> repeat (lang p))"
    by (simp add: Star)
  then show ?case
    unfolding lang.simps repeat_Cons .
qed

lemma regex_test_lang: "regex_test p s \<longleftrightarrow> s \<in> lang p"
  by (induction s arbitrary: p) (simp_all add: nullable_lang lang_after)

lemma repeat_Class: "s \<in> repeat {[c] | c. P c} \<longleftrightarrow> list_all P s"
proof (induction s)
  case Nil
  show ?case by (simp add: repeat.none)
next
  case (Cons a s)
  have "a # s \<in> repeat {[c] | c. P c} \<longleftrightarrow> P a \<and> s \<in> repeat {[c] | c. P c}"
    unfolding repeat_Cons [of a s] by simp
  with Cons show ?case by simp
qed

lemma regex_test_Plus_Class: "regex_test (Plus (Class P)) s \<longleftrightarrow> s \<noteq> [] \<and> list_all P s"
proof (cases s)
  case Nil
  then show ?thesis by (simp add: Plus_def)
next
  case (Cons a t)
  have "regex_test (Plus (Class P)) (a # t) \<longleftrightarrow> P a \<and> t \<in> repeat {[c] | c. P c}"
    unfolding regex_test_lang Plus_def lang.simps Cons_in_concat by simp
  with Cons show ?thesis by (simp add: repeat_Class)
qed

lemma lang_Plus_Class: "lang (Plus (Class P)) = {s. s \<noteq> [] \<and> list_all P s}"
proof (rule set_eqI)
  fix s
  show "s \<in> lang (Plus (Class P)) \<longleftrightarrow> s \<in> {s. s \<noteq> [] \<and> list_all P s}"
    using regex_test_Plus_Class [of P s] by (simp add: regex_test_lang)
qed

lemma lang_Then: "s \<in> lang (Then p q) \<longleftrightarrow> (\<exists>u v. s = u @ v \<and> u \<in> lang p \<and> v \<in> lang q)"
  by simp

lemma lang_Class_eq: "s \<in> lang (Class (\<lambda>c. c = d)) \<longleftrightarrow> s = [d]"
  by simp

text \<open>What the two expressions of the source accept.\<close>

lemma textOnlyRegex_shape:
  "regex_test textOnlyRegex s \<longleftrightarrow> s \<noteq> [] \<and> list_all textOnlyClass s"
  by (simp add: textOnlyRegex_def regex_test_Plus_Class)

lemma emailRegex_shape:
  "regex_test emailRegex s \<longleftrightarrow>
     (\<exists>a b c. s = a @ [0x40] @ b @ [0x2E] @ c \<and>
        a \<noteq> [] \<and> list_all notSpaceAt a \<and> b \<noteq> [] \<and> list_all notSpaceAt b \<and>
        c \<noteq> [] \<and> list_all notSpaceAt c)"
  (is "_ \<longleftrightarrow> ?R")
proof -
  let ?N = "{s. s \<noteq> [] \<and> list_all notSpaceAt s}"
  have "regex_test emailRegex s \<longleftrightarrow>
        (\<exists>a v1. s = a @ v1 \<and> a \<in> ?N \<and>
          (\<exists>x v2. v1 = x @ v2 \<and> x = [0x40] \<and>
            (\<exists>b v3. v2 = b @ v3 \<and> b \<in> ?N \<and>
              (\<exists>y c. v3 = y @ c \<and> y = [0x2E] \<and> c \<in> ?N))))"
    unfolding regex_test_lang emailRegex_def lang_Then lang_Class_eq lang_Plus_Class ..
  also have "\<dots> \<longleftrightarrow> ?R"
    by (simp del: append.simps) blast
  finally show ?thesis .
qed

section \<open>Validation of the sign-up form\<close>

lemma trim_Nil [simp]: "trim [] = []"
  by (simp add: trim_def)

lemma trim_nonempty: "trim s \<noteq> [] \<Longrightarrow> s \<noteq> []"
  by auto

lemma js_Cons: "js (c # s) = of_char c # js s"
  by (simp add: js_def)

lemma truthy_Some [simp]: "truthy (Some s) \<longleftrightarrow> s \<noteq> []"
  by (simp add: truthy_def)

lemma truthy_None [simp]: "\<not> truthy None"
  by (simp add: truthy_def)

lemma truthy_validateTextOnly:
  "truthy (validateTextOnly v f) \<longleftrightarrow> v \<noteq> [] \<and> \<not> regex_test textOnlyRegex v"
  by (simp add: validateTextOnly_def js_Cons)

lemma get_prop_update:
  "get_prop (AList.update k v obj) k' = (if k' = k then v else get_prop obj k')"
  by (simp add: get_prop_def update_conv')

lemma get_prop_Nil [simp]: "get_prop [] k = None"
  by (simp add: get_prop_def)

lemma validate_name_Nil: "validate_name fd e = [] \<longleftrightarrow> e = [] \<and> name_check fd"
  by (auto simp: validate_name_def name_check_def truthy_validateTextOnly Let_def)

lemma validate_email_Nil: "validate_email fd e = [] \<longleftrightarrow> e = [] \<and> email_check fd"
  by (auto simp: validate_email_def email_check_def)

lemma validate_password_Nil: "validate_password fd e = [] \<longleftrightarrow> e = [] \<and> password_check fd"
  by (auto simp: validate_password_def password_check_def)

lemma validate_confirmPassword_Nil:
  "validate_confirmPassword fd e = [] \<longleftrightarrow> e = [] \<and> confirmPassword_check fd"
  by (auto simp: validate_confirmPassword_def confirmPassword_check_def)

lemma validate_grade_Nil: "validate_grade fd e = [] \<longleftrightarrow> e = [] \<and> grade_check fd"
  by (auto simp: validate_grade_def grade_check_def)

lemma validate_school_Nil: "validate_school fd e = [] \<longleftrightarrow> e = [] \<and> school_check fd"
  by (auto simp: validate_school_def school_check_def truthy_validateTextOnly Let_def
      split: option.splits)

lemma signup_newErrors_Nil:
  "signup_newErrors fd = [] \<longleftrightarrow>
     name_check fd \<and> email_check fd \<and> password_check fd \<and> confirmPassword_check fd \<and>
     grade_check fd \<and> school_check fd"
  unfolding signup_newErrors_def validate_school_Nil validate_grade_Nil
    validate_confirmPassword_Nil validate_password_Nil validate_email_Nil validate_name_Nil
  by blast

lemma truthy_validate_name:
  "truthy (get_prop (validate_name fd e) k) \<longleftrightarrow>
     (k = ''name'' \<and> \<not> name_check fd) \<or> truthy (get_prop e k)"
  by (auto simp: validate_name_def name_check_def get_prop_update Let_def
      truthy_validateTextOnly js_Cons)

lemma truthy_validate_email:
  "truthy (get_prop (validate_email fd e) k) \<longleftrightarrow>
     (k = ''email'' \<and> \<not> email_check fd) \<or> truthy (get_prop e k)"
  by (auto simp: validate_email_def email_check_def get_prop_update js_Cons)

lemma truthy_validate_password:
  "truthy (get_prop (validate_password fd e) k) \<longleftrightarrow>
     (k = ''password'' \<and> \<not> password_check fd) \<or> truthy (get_prop e k)"
  by (auto simp: validate_password_def password_check_def get_prop_update js_Cons)

lemma truthy_validate_confirmPassword:
  "truthy (get_prop (validate_confirmPassword fd e) k) \<longleftrightarrow>
     (k = ''confirmPassword'' \<and> \<not> confirmPassword_check fd) \<or> truthy (get_prop e k)"
  by (auto simp: validate_confirmPassword_def confirmPassword_check_def get_prop_update js_Cons)

lemma truthy_validate_grade:
  "truthy (get_prop (validate_grade fd e) k) \<longleftrightarrow>
     (k = ''grade'' \<and> \<not> grade_check fd) \<or> truthy (get_prop e k)"
  by (auto simp: validate_grade_def grade_check_def get_prop_update js_Cons)

lemma truthy_validate_school:
  "truthy (get_prop (validate_school fd e) k) \<longleftrightarrow>
     (k = ''school'' \<and> \<not> school_check fd) \<or> truthy (get_prop e k)"
  by (auto simp: validate_school_def school_check_def get_prop_update Let_def
      truthy_validateTextOnly js_Cons split: option.splits)

lemma truthy_signup_newErrors:
  "truthy (get_prop (signup_newErrors fd) k) \<longleftrightarrow>
     (k = ''name'' \<and> \<not> name_check fd) \<or> (k = ''email'' \<and> \<not> email_check fd) \<or>
     (k = ''password'' \<and> \<not> password_check fd) \<or>
     (k = ''confirmPassword'' \<and> \<not> confirmPassword_check fd) \<or>
     (k = ''grade'' \<and> \<not> grade_check fd) \<or> (k = ''school'' \<and> \<not> school_check fd)"
  unfolding signup_newErrors_def truthy_validate_school truthy_validate_grade
    truthy_validate_confirmPassword truthy_validate_password truthy_validate_email
    truthy_validate_name
  by (simp add: disj_ac)


lemmas eval_strings = js_def trim_def isWhiteSpace_def textOnlyRegex_def textOnlyClass_def
  emailRegex_def notSpaceAt_def Plus_def

lemma alice_checks:
  "name_check alice" "email_check alice" "password_check alice" "confirmPassword_check alice"
  "grade_check alice" "school_check alice"
  by (simp_all add: alice_def name_check_def email_check_def password_check_def
      confirmPassword_check_def grade_check_def school_check_def eval_strings)


section \<open>Validation of the lesson form\<close>

lemma validate_title_Nil: "validate_title fd e = [] \<longleftrightarrow> e = [] \<and> title_check fd"
  by (auto simp: validate_title_def title_check_def truthy_validateTextOnly Let_def)

lemma validate_subject_Nil: "validate_subject fd e = [] \<longleftrightarrow> e = [] \<and> subject_check fd"
  by (auto simp: validate_subject_def subject_check_def)

lemma validate_description_Nil:
  "validate_description fd e = [] \<longleftrightarrow> e = [] \<and> description_check fd"
  by (auto simp: validate_description_def description_check_def)

lemma validate_duration_Nil: "validate_duration fd e = [] \<longleftrightarrow> e = [] \<and> duration_check fd"
  by (auto simp: validate_duration_def duration_check_def)

lemma filter_empty_list_ex: "filter P xs = [] \<longleftrightarrow> \<not> list_ex P xs"
  by (induction xs) auto

lemma validate_objectives_Nil:
  "validate_objectives fd e = [] \<longleftrightarrow> e = [] \<and> objectives_check fd"
  by (auto simp: validate_objectives_def objectives_check_def Let_def filter_empty_list_ex)

lemma validate_category_Nil: "validate_category fd e = [] \<longleftrightarrow> e = [] \<and> category_check fd"
  by (auto simp: validate_category_def category_check_def)

lemma lesson_newErrors_Nil:
  "lesson_newErrors fd = [] \<longleftrightarrow>
     title_check fd \<and> subject_check fd \<and> description_check fd \<and> duration_check fd \<and>
     objectives_check fd \<and> category_check fd"
  unfolding lesson_newErrors_def validate_category_Nil validate_objectives_Nil
    validate_duration_Nil validate_description_Nil validate_subject_Nil validate_title_Nil
  by blast

lemma truthy_validate_title:
  "truthy (get_prop (validate_title fd e) k) \<longleftrightarrow>
     (k = ''title'' \<and> \<not> title_check fd) \<or> truthy (get_prop e k)"
  by (auto simp: validate_title_def title_check_def get_prop_update Let_def
      truthy_validateTextOnly js_Cons)

lemma truthy_validate_subject:
  "truthy (get_prop (validate_subject fd e) k) \<longleftrightarrow>
     (k = ''subject'' \<and> \<not> subject_check fd) \<or> truthy (get_prop e k)"
  by (auto simp: validate_subject_def subject_check_def get_prop_update js_Cons)

lemma truthy_validate_description:
  "truthy (get_prop (validate_description fd e) k) \<longleftrightarrow>
     (k = ''description'' \<and> \<not> description_check fd) \<or> truthy (get_prop e k)"
  by (auto simp: validate_description_def description_check_def get_prop_update js_Cons)

lemma truthy_validate_duration:
  "truthy (get_prop (validate_duration fd e) k) \<longleftrightarrow>
     (k = ''duration'' \<and> \<not> duration_check fd) \<or> truthy (get_prop e k)"
  by (auto simp: validate_duration_def duration_check_def get_prop_update js_Cons)

lemma truthy_validate_objectives:
  "truthy (get_prop (validate_objectives fd e) k) \<longleftrightarrow>
     (k = ''objectives'' \<and> \<not> objectives_check fd) \<or> truthy (get_prop e k)"
  by (auto simp: validate_objectives_def objectives_check_def get_prop_update js_Cons Let_def
      filter_empty_list_ex)

lemma truthy_validate_category:
  "truthy (get_prop (validate_category fd e) k) \<longleftrightarrow>
     (k = ''category'' \<and> \<not> category_check fd) \<or> truthy (get_prop e k)"
  by (auto simp: validate_category_def category_check_def get_prop_update js_Cons)

lemma truthy_lesson_newErrors:
  "truthy (get_prop (lesson_newErrors fd) k) \<longleftrightarrow>
     (k = ''title'' \<and> \<not> title_check fd) \<or> (k = ''subject'' \<and> \<not> subject_check fd) \<or>
     (k = ''description'' \<and> \<not> description_check fd) \<or>
     (k = ''duration'' \<and> \<not> duration_check fd) \<or>
     (k = ''objectives'' \<and> \<not> objectives_check fd) \<or>
     (k = ''category'' \<and> \<not> category_check fd)"
  unfolding lesson_newErrors_def truthy_validate_category truthy_validate_objectives
    truthy_validate_duration truthy_validate_description truthy_validate_subject
    truthy_validate_title
  by (simp add: disj_ac)

lemma fst_lesson_validateForm:
  "fst (lesson_validateForm st) \<longleftrightarrow> lesson_newErrors (formData st) = []"
  by (simp add: lesson_validateForm_def Let_def Object_keys_def)

lemma snd_lesson_validateForm:
  "snd (lesson_validateForm st) = st\<lparr>errors := lesson_newErrors (formData st)\<rparr>"
  by (simp add: lesson_validateForm_def Let_def)

text \<open>
  Claim C2. For every state of the lesson form, \<open>validateForm\<close> returns true exactly when
  the trimmed title is non-empty and the title matches the text-only expression, the trimmed
  subject is non-empty, the trimmed description is non-empty and the description has at
  least 20 code units, the duration is between 15 and 180, some objective is not blank, and
  the trimmed category is non-empty. Difficulty, prerequisites and materials are not looked
  at.
\<close>

theorem lesson_validateForm_checks:
  "fst (lesson_validateForm st) =
     (title_check (formData st) \<and> subject_check (formData st) \<and>
      description_check (formData st) \<and> duration_check (formData st) \<and>
      objectives_check (formData st) \<and> category_check (formData st))"
  by (simp add: fst_lesson_validateForm lesson_newErrors_Nil)

lemma wetlands_checks:
  "title_check wetlands" "subject_check wetlands" "description_check wetlands"
  "duration_check wetlands" "objectives_check wetlands" "category_check wetlands"
  by (simp_all add: wetlands_def title_check_def subject_check_def description_check_def
      duration_check_def objectives_check_def category_check_def eval_strings)

text \<open>A form that passes, and the same form with a duration of 200 and with blank objectives.\<close>

theorem lesson_validateForm_checks_witness:
  "fst (lesson_validateForm (lesson_form wetlands)) \<and>
   \<not> fst (lesson_validateForm (lesson_form (wetlands\<lparr>duration := 200\<rparr>))) \<and>
   \<not> fst (lesson_validateForm (lesson_form (wetlands\<lparr>objectives := [js '' '', []]\<rparr>)))"
  using lesson_validateForm_checks [of "lesson_form wetlands"]
    lesson_validateForm_checks [of "lesson_form (wetlands\<lparr>duration := 200\<rparr>)"]
    lesson_validateForm_checks [of "lesson_form (wetlands\<lparr>objectives := [js '' '', []]\<rparr>)"]
  by (simp add: lesson_form_def wetlands_def title_check_def subject_check_def
      description_check_def duration_check_def objectives_check_def category_check_def
      eval_strings)

section \<open>Submission of the sign-up form\<close>

lemma fst_signup_validateForm:
  "fst (signup_validateForm st) \<longleftrightarrow> signup_newErrors (formData st) = []"
  by (simp add: signup_validateForm_def Let_def Object_keys_def)

lemma snd_signup_validateForm:
  "snd (signup_validateForm st) = st\<lparr>errors := signup_newErrors (formData st)\<rparr>"
  by (simp add: signup_validateForm_def Let_def)

lemma signup_sync_invalid:
  "\<not> fst (signup_validateForm (component w)) \<Longrightarrow>
   signup_handleSubmit_sync w =
     Returned (w\<lparr>component := (component w)\<lparr>errors := signup_newErrors (formData (component w))\<rparr>,
                 effects := effects w @ [PreventDefault]\<rparr>)"
  by (simp add: signup_handleSubmit_sync_def emit_def Let_def split_beta
      snd_signup_validateForm)

lemma signup_sync_valid:
  "fst (signup_validateForm (component w)) \<Longrightarrow>
   signup_handleSubmit_sync w =
     Awaiting 2000 (w\<lparr>component := (component w)\<lparr>errors := [], isSubmitting := True\<rparr>,
                      effects := effects w @ [PreventDefault]\<rparr>)"
  by (simp add: signup_handleSubmit_sync_def emit_def Let_def split_beta
      snd_signup_validateForm)

lemma signup_resume_ok:
  "\<not> setItem_throws env \<Longrightarrow>
   signup_handleSubmit_resume env fd w =
     w\<lparr>component := (component w)\<lparr>isSubmitting := False, isSuccess := True\<rparr>,
       effects := effects w @
         [ConsoleLog (js ''Registration successful:''),
          StorageSetItem (js ''currentUser'') (JSON_stringify (userData env fd)),
          SetTimeoutNavigate 2000
            (if role fd = Student then js ''/dashboard'' else js ''/teacher'')]\<rparr>"
  by (simp add: signup_handleSubmit_resume_def emit_def set_component_def Let_def)

lemma signup_resume_throws:
  "setItem_throws env \<Longrightarrow>
   signup_handleSubmit_resume env fd w =
     w\<lparr>component := (component w)\<lparr>errors :=
                  [(''general'', Some (js ''Registration failed. Please try again.''))],
                isSubmitting := False\<rparr>,
       effects := effects w @
         [ConsoleLog (js ''Registration successful:''),
          ConsoleError (js ''Registration error:'')]\<rparr>"
  by (simp add: signup_handleSubmit_resume_def emit_def set_component_def Let_def)

lemma signup_handleSubmit_invalid:
  "\<not> fst (signup_validateForm (component w)) \<Longrightarrow>
   signup_handleSubmit env w =
     [w\<lparr>component := (component w)\<lparr>errors := signup_newErrors (formData (component w))\<rparr>,
        effects := effects w @ [PreventDefault]\<rparr>]"
  by (simp add: signup_handleSubmit_def signup_sync_invalid)

lemma signup_handleSubmit_ok:
  "fst (signup_validateForm (component w)) \<Longrightarrow> \<not> setItem_throws env \<Longrightarrow>
   signup_handleSubmit env w =
     [w\<lparr>component := (component w)\<lparr>errors := [], isSubmitting := True\<rparr>,
        effects := effects w @ [PreventDefault]\<rparr>,
      w\<lparr>component := (component w)\<lparr>errors := [], isSubmitting := False, isSuccess := True\<rparr>,
        effects := effects w @
          [PreventDefault, ConsoleLog (js ''Registration successful:''),
           StorageSetItem (js ''currentUser'')
             (JSON_stringify (userData env (formData (component w)))),
           SetTimeoutNavigate 2000
             (if role (formData (component w)) = Student then js ''/dashboard''
              else js ''/teacher'')]\<rparr>]"
  by (simp add: signup_handleSubmit_def signup_sync_valid signup_resume_ok)

lemma signup_handleSubmit_throws:
  "fst (signup_validateForm (component w)) \<Longrightarrow> setItem_throws env \<Longrightarrow>
   signup_handleSubmit env w =
     [w\<lparr>component := (component w)\<lparr>errors := [], isSubmitting := True\<rparr>,
        effects := effects w @ [PreventDefault]\<rparr>,
      w\<lparr>component := (component w)\<lparr>errors :=
                   [(''general'', Some (js ''Registration failed. Please try again.''))],
                 isSubmitting := False\<rparr>,
        effects := effects w @
          [PreventDefault, ConsoleLog (js ''Registration successful:''),
           ConsoleError (js ''Registration error:'')]\<rparr>]"
  by (simp add: signup_handleSubmit_def signup_sync_valid signup_resume_throws)

lemma effect_kinds [simp]:
  "\<not> isNavigation PreventDefault" "\<not> isNavigation (ConsoleLog a)" "\<not> isNavigation (ConsoleError a)"
  "\<not> isNavigation (StorageSetItem k j)" "isNavigation (SetTimeoutNavigate ms p)"
  "\<not> isNavigation (OnSave d)" "\<not> isNavigation OnClose"
  "\<not> isStorageWrite PreventDefault" "\<not> isStorageWrite (ConsoleLog a)"
  "\<not> isStorageWrite (ConsoleError a)" "isStorageWrite (StorageSetItem k j)"
  "\<not> isStorageWrite (SetTimeoutNavigate ms p)" "\<not> isStorageWrite (OnSave d)"
  "\<not> isStorageWrite OnClose"
  "\<not> isOnSave PreventDefault" "\<not> isOnSave (ConsoleLog a)" "\<not> isOnSave (ConsoleError a)"
  "\<not> isOnSave (StorageSetItem k j)" "\<not> isOnSave (SetTimeoutNavigate ms p)"
  "isOnSave (OnSave d)" "\<not> isOnSave OnClose"
  by (simp_all add: isNavigation_def isStorageWrite_def isOnSave_def)

lemma validators_ignore_grade:
  "validate_name (fd\<lparr>grade := g\<rparr>) e = validate_name fd e"
  "validate_email (fd\<lparr>grade := g\<rparr>) e = validate_email fd e"
  "validate_password (fd\<lparr>grade := g\<rparr>) e = validate_password fd e"
  "validate_confirmPassword (fd\<lparr>grade := g\<rparr>) e = validate_confirmPassword fd e"
  "validate_school (fd\<lparr>grade := g\<rparr>) e = validate_school fd e"
  by (simp_all add: validate_name_def validate_email_def validate_password_def
      validate_confirmPassword_def validate_school_def)

lemma validate_grade_Teacher:
  "role fd = Teacher \<Longrightarrow> validate_grade (fd\<lparr>grade := g\<rparr>) e = validate_grade fd e"
  by (simp add: validate_grade_def)

lemma signup_newErrors_grade_Teacher:
  "role fd = Teacher \<Longrightarrow> signup_newErrors (fd\<lparr>grade := g\<rparr>) = signup_newErrors fd"
  by (simp only: signup_newErrors_def validators_ignore_grade validate_grade_Teacher)

lemma grade_error_iff:
  "truthy (get_prop (signup_newErrors fd) ''grade'') \<longleftrightarrow> role fd = Student \<and> \<not> truthy (grade fd)"
  by (simp add: truthy_signup_newErrors grade_check_def)

lemma grade_missing_invalid:
  "role fd = Student \<Longrightarrow> \<not> truthy (grade fd) \<Longrightarrow> signup_newErrors fd \<noteq> []"
  by (simp add: signup_newErrors_Nil grade_check_def)

text \<open>
  Claim C3. Submission branches on the role. When the form is valid and the storage write
  succeeds, the run schedules exactly one navigation, to \<open>/dashboard\<close> for a student and
  to \<open>/teacher\<close> for a teacher. The grade is required exactly for a student: the error
  under \<open>grade\<close> is recorded if and only if the role is student and no grade is chosen, a
  student without a grade never passes validation, and for a teacher the result of
  validation does not depend on the grade at all.
\<close>

theorem signup_role_branching:
  "(fst (signup_validateForm (component w)) \<and> \<not> setItem_throws env \<longrightarrow>
      filter isNavigation (effects (last (signup_handleSubmit env w))) =
        filter isNavigation (effects w) @
          [SetTimeoutNavigate 2000
             (case role (formData (component w)) of
                Student \<Rightarrow> js ''/dashboard'' | Teacher \<Rightarrow> js ''/teacher'')]) \<and>
   (truthy (get_prop (errors (snd (signup_validateForm (component w)))) ''grade'') \<longleftrightarrow>
      role (formData (component w)) = Student \<and> \<not> truthy (grade (formData (component w)))) \<and>
   (role (formData (component w)) = Student \<and> \<not> truthy (grade (formData (component w))) \<longrightarrow>
      \<not> fst (signup_validateForm (component w))) \<and>
   (role (formData (component w)) = Teacher \<longrightarrow>
      fst (signup_validateForm ((component w)\<lparr>formData := (formData (component w))\<lparr>grade := g\<rparr>\<rparr>)) =
      fst (signup_validateForm (component w)))"
proof (intro conjI impI)
  assume ok: "fst (signup_validateForm (component w)) \<and> \<not> setItem_throws env"
  then show "filter isNavigation (effects (last (signup_handleSubmit env w))) =
        filter isNavigation (effects w) @
          [SetTimeoutNavigate 2000
             (case role (formData (component w)) of
                Student \<Rightarrow> js ''/dashboard'' | Teacher \<Rightarrow> js ''/teacher'')]"
    by (cases "role (formData (component w))") (simp_all add: signup_handleSubmit_ok)
next
  show "truthy (get_prop (errors (snd (signup_validateForm (component w)))) ''grade'') \<longleftrightarrow>
      role (formData (component w)) = Student \<and> \<not> truthy (grade (formData (component w)))"
    by (simp add: snd_signup_validateForm grade_error_iff)
next
  assume "role (formData (component w)) = Student \<and> \<not> truthy (grade (formData (component w)))"
  then show "\<not> fst (signup_validateForm (component w))"
    by (simp add: fst_signup_validateForm grade_missing_invalid)
next
  assume "role (formData (component w)) = Teacher"
  then show "fst (signup_validateForm ((component w)\<lparr>formData := (formData (component w))\<lparr>grade := g\<rparr>\<rparr>)) =
      fst (signup_validateForm (component w))"
    by (simp add: fst_signup_validateForm signup_newErrors_grade_Teacher)
qed

lemmas eval_checks = name_check_def email_check_def password_check_def
  confirmPassword_check_def grade_check_def school_check_def

lemma alice_valid: "fst (signup_validateForm (signup_initial alice))"
  by (simp add: fst_signup_validateForm signup_newErrors_Nil signup_initial_def alice_checks)

lemma tara_valid: "fst (signup_validateForm (signup_initial tara))"
  by (simp add: fst_signup_validateForm signup_newErrors_Nil signup_initial_def eval_checks
      tara_def eval_strings)

text \<open>
  A valid student is sent to \<open>/dashboard\<close>, a valid teacher to \<open>/teacher\<close>; the student
  without a grade is rejected, the teacher passes with or without one.
\<close>

theorem signup_role_branching_witness:
  "fst (signup_validateForm (component (valid_world alice))) \<and> \<not> setItem_throws browser \<and>
   role (formData (component (valid_world alice))) = Student \<and>
   filter isNavigation (effects (last (signup_handleSubmit browser (valid_world alice)))) =
     [SetTimeoutNavigate 2000 (js ''/dashboard'')] \<and>
   fst (signup_validateForm (component (valid_world tara))) \<and>
   role (formData (component (valid_world tara))) = Teacher \<and>
   filter isNavigation (effects (last (signup_handleSubmit browser (valid_world tara)))) =
     [SetTimeoutNavigate 2000 (js ''/teacher'')] \<and>
   \<not> truthy (grade (formData (component (valid_world (alice\<lparr>grade := None\<rparr>))))) \<and>
   \<not> fst (signup_validateForm (component (valid_world (alice\<lparr>grade := None\<rparr>)))) \<and>
   fst (signup_validateForm
         ((component (valid_world tara))\<lparr>formData := (formData (component (valid_world tara)))\<lparr>grade := Some (js ''9th'')\<rparr>\<rparr>))"
  using signup_role_branching [of "valid_world alice" browser None]
    signup_role_branching [of "valid_world tara" browser "Some (js ''9th'')"]
    signup_role_branching [of "valid_world (alice\<lparr>grade := None\<rparr>)" browser None]
    alice_valid tara_valid
  by (simp add: valid_world_def signup_initial_def browser_def alice_def tara_def)

text \<open>
  Claim C4. When validation fails, \<open>handleSubmit\<close> returns at once: the run has a single
  state, which differs from the state before only in \<open>errors\<close>, now the per-field messages;
  \<open>isSubmitting\<close> and \<open>isSuccess\<close> are untouched, and beyond \<open>preventDefault\<close> there is
  no effect, so nothing is written to storage and no navigation is scheduled.
\<close>

theorem signup_invalid_submit_gated:
  assumes "\<not> fst (signup_validateForm (component w))"
  shows "signup_handleSubmit env w =
           [w\<lparr>component := (component w)\<lparr>errors := signup_newErrors (formData (component w))\<rparr>,
              effects := effects w @ [PreventDefault]\<rparr>] \<and>
         list_all (\<lambda>w'. isSubmitting (component w') = isSubmitting (component w) \<and>
                         isSuccess (component w') = isSuccess (component w) \<and>
                         formData (component w') = formData (component w) \<and>
                         filter isStorageWrite (effects w') = filter isStorageWrite (effects w) \<and>
                         filter isNavigation (effects w') = filter isNavigation (effects w))
           (signup_handleSubmit env w)"
  using assms by (simp add: signup_handleSubmit_invalid)

lemma alice_no_grade_invalid:
  "\<not> fst (signup_validateForm (component (valid_world (alice\<lparr>grade := None\<rparr>))))"
  by (simp add: valid_world_def signup_initial_def fst_signup_validateForm
      grade_missing_invalid alice_def)

text \<open>
  The run for a student's form without a grade.
\<close>

theorem signup_invalid_submit_gated_witness:
  "\<not> fst (signup_validateForm (component (valid_world (alice\<lparr>grade := None\<rparr>)))) \<and>
   map effects (signup_handleSubmit browser (valid_world (alice\<lparr>grade := None\<rparr>))) =
     [[PreventDefault]] \<and>
   map (isSubmitting \<circ> component) (signup_handleSubmit browser (valid_world (alice\<lparr>grade := None\<rparr>))) =
     [False] \<and>
   map (isSuccess \<circ> component) (signup_handleSubmit browser (valid_world (alice\<lparr>grade := None\<rparr>))) =
     [False]"
  using signup_invalid_submit_gated [OF alice_no_grade_invalid, of browser] alice_no_grade_invalid
  by (simp add: valid_world_def signup_initial_def)

lemma flow_of_simps:
  "\<not> isSuccess st \<Longrightarrow> isSubmitting st \<Longrightarrow> flow_of st = Submitting"
  "isSuccess st \<Longrightarrow> flow_of st = Success"
  "\<not> isSubmitting st \<Longrightarrow> \<not> isSuccess st \<Longrightarrow>
     errors st = [(''general'', Some (js ''Registration failed. Please try again.''))] \<Longrightarrow>
     flow_of st = Failed"
  by (simp_all add: flow_of_def get_prop_def js_Cons)

text \<open>
  Claim C5. A run of \<open>handleSubmit\<close> that passes validation has \<open>isSubmitting\<close> true while
  it waits and false at the end. It ends with \<open>isSuccess\<close> set, or, when the storage write
  throws, with the one message \<open>Registration failed. Please try again.\<close> as the whole of
  \<open>errors\<close> and \<open>isSuccess\<close> as it was. Started from the form (which is rendered only
  while \<open>isSuccess\<close> is false), the page shows the phases submitting and then success or
  failed.
\<close>

theorem signup_submission_flow:
  assumes "fst (signup_validateForm (component w))"
  shows "map (isSubmitting \<circ> component) (signup_handleSubmit env w) = [True, False] \<and>
         (if setItem_throws env
          then errors (component (last (signup_handleSubmit env w))) =
                 [(''general'', Some (js ''Registration failed. Please try again.''))] \<and>
               isSuccess (component (last (signup_handleSubmit env w))) =
                 isSuccess (component w)
          else isSuccess (component (last (signup_handleSubmit env w)))) \<and>
         (\<not> isSuccess (component w) \<longrightarrow>
            map (flow_of \<circ> component) (signup_handleSubmit env w) =
              [Submitting, if setItem_throws env then Failed else Success])"
proof (cases "setItem_throws env")
  case True
  with assms show ?thesis
    by (simp add: signup_handleSubmit_throws flow_of_simps)
next
  case False
  with assms show ?thesis
    by (simp add: signup_handleSubmit_ok flow_of_simps)
qed

lemma alice_world_valid: "fst (signup_validateForm (component (valid_world alice)))"
  using alice_valid by (simp add: valid_world_def)

lemma alice_world_fresh: "\<not> isSuccess (component (valid_world alice))"
  by (simp add: valid_world_def signup_initial_def)

text \<open>
  Both outcomes for one valid form.
\<close>

theorem signup_submission_flow_witness:
  "fst (signup_validateForm (component (valid_world alice))) \<and>
   \<not> isSuccess (component (valid_world alice)) \<and>
   map (flow_of \<circ> component) (signup_handleSubmit browser (valid_world alice)) =
     [Submitting, Success] \<and>
   map (flow_of \<circ> component)
     (signup_handleSubmit (browser\<lparr>setItem_throws := True\<rparr>) (valid_world alice)) =
     [Submitting, Failed]"
  using signup_submission_flow [OF alice_world_valid, of browser]
    signup_submission_flow [OF alice_world_valid, of "browser\<lparr>setItem_throws := True\<rparr>"]
    alice_world_valid alice_world_fresh
  by (simp add: browser_def)

lemma stored_record_lookup:
  "map_of (JSON_stringify (userData env fd)) ''id'' = Some (toString_nat (date_now env))"
  "map_of (JSON_stringify (userData env fd)) ''name'' = Some (name fd)"
  "map_of (JSON_stringify (userData env fd)) ''email'' = Some (email fd)"
  "map_of (JSON_stringify (userData env fd)) ''role'' = Some (role_string (role fd))"
  by (simp_all add: JSON_stringify_def userData_def)

lemma stringify_append:
  "JSON_stringify (a @ b) = JSON_stringify a @ JSON_stringify b"
  by (simp add: JSON_stringify_def)

lemma stringify_simps:
  "JSON_stringify [] = []"
  "JSON_stringify ((k, Some s) # obj) = (k, s) # JSON_stringify obj"
  "JSON_stringify ((k, None) # obj) = JSON_stringify obj"
  by (simp_all add: JSON_stringify_def)

lemma truthy_cases: "truthy v \<longleftrightarrow> (\<exists>s. v = Some s \<and> s \<noteq> [])"
  by (cases v) simp_all

lemma stored_record_optional:
  "map_of (JSON_stringify (userData env fd)) ''grade'' =
     (if role fd = Student then grade fd else None)"
  "map_of (JSON_stringify (userData env fd)) ''school'' =
     (if truthy (school fd) then school fd else None)"
  "map_of (JSON_stringify (userData env fd)) ''state'' =
     (if truthy (state fd) then state fd else None)"
  "map_of (JSON_stringify (userData env fd)) ''joinDate'' = Some (date_iso env)"
  "set (map fst (JSON_stringify (userData env fd))) \<subseteq>
     {''id'', ''name'', ''email'', ''role'', ''grade'', ''school'', ''state'', ''joinDate''}"
  by (cases "grade fd"; cases "school fd"; cases "state fd";
      simp add: userData_def stringify_append stringify_simps)+

lemma valid_grade_check: "fst (signup_validateForm st) \<Longrightarrow> grade_check (formData st)"
  by (simp add: fst_signup_validateForm signup_newErrors_Nil)

text \<open>
  Claim C6. On a successful sign-up the run makes exactly one storage write, under the key
  \<open>currentUser\<close>. The record written holds the name, e-mail and role of the form, an id and
  a join date; it has a \<open>grade\<close> exactly when the role is student, a \<open>school\<close> exactly when
  a non-empty school was entered, a \<open>state\<close> exactly when a non-empty state was selected,
  and no other key.
\<close>

theorem signup_storage_write:
  assumes "fst (signup_validateForm (component w))" and "\<not> setItem_throws env"
  shows "filter isStorageWrite (effects (last (signup_handleSubmit env w))) =
           filter isStorageWrite (effects w) @
             [StorageSetItem (js ''currentUser'') (currentUser_record env (formData (component w)))] \<and>
         map_of (currentUser_record env (formData (component w))) ''name'' =
           Some (name (formData (component w))) \<and>
         map_of (currentUser_record env (formData (component w))) ''email'' =
           Some (email (formData (component w))) \<and>
         map_of (currentUser_record env (formData (component w))) ''role'' =
           Some (role_string (role (formData (component w)))) \<and>
         map_of (currentUser_record env (formData (component w))) ''id'' =
           Some (toString_nat (date_now env)) \<and>
         map_of (currentUser_record env (formData (component w))) ''joinDate'' =
           Some (date_iso env) \<and>
         (map_of (currentUser_record env (formData (component w))) ''grade'' \<noteq> None \<longleftrightarrow>
            role (formData (component w)) = Student) \<and>
         (map_of (currentUser_record env (formData (component w))) ''school'' \<noteq> None \<longleftrightarrow>
            truthy (school (formData (component w)))) \<and>
         (map_of (currentUser_record env (formData (component w))) ''state'' \<noteq> None \<longleftrightarrow>
            truthy (state (formData (component w)))) \<and>
         set (map fst (currentUser_record env (formData (component w)))) \<subseteq>
           {''id'', ''name'', ''email'', ''role'', ''grade'', ''school'', ''state'', ''joinDate''}"
proof -
  let ?fd = "formData (component w)"
  have g: "role ?fd = Student \<longrightarrow> truthy (grade ?fd)"
    using valid_grade_check [OF assms(1)] by (simp add: grade_check_def)
  have 1: "filter isStorageWrite (effects (last (signup_handleSubmit env w))) =
           filter isStorageWrite (effects w) @
             [StorageSetItem (js ''currentUser'') (currentUser_record env ?fd)]"
    using assms by (simp add: signup_handleSubmit_ok)
  have 2: "map_of (currentUser_record env ?fd) ''grade'' \<noteq> None \<longleftrightarrow> role ?fd = Student"
    using g by (auto simp: stored_record_optional(1) truthy_cases)
  have 3: "map_of (currentUser_record env ?fd) ''school'' \<noteq> None \<longleftrightarrow> truthy (school ?fd)"
    by (auto simp: stored_record_optional(2) truthy_cases)
  have 4: "map_of (currentUser_record env ?fd) ''state'' \<noteq> None \<longleftrightarrow> truthy (state ?fd)"
    by (auto simp: stored_record_optional(3) truthy_cases)
  from 1 2 3 4 show ?thesis
    by (simp only: stored_record_lookup stored_record_optional(4,5) simp_thms)
qed

text \<open>
  The record written for a student who entered a school and no state.
\<close>

theorem signup_storage_write_witness:
  "fst (signup_validateForm (component (valid_world alice))) \<and> \<not> setItem_throws browser \<and>
   filter isStorageWrite (effects (last (signup_handleSubmit browser (valid_world alice)))) =
     [StorageSetItem (js ''currentUser'')
        [(''id'', toString_nat 1700000000000), (''name'', js ''Alice Roy''),
         (''email'', js ''alice@example.com''), (''role'', js ''student''),
         (''grade'', js ''8th''), (''school'', js ''St. Mary's''),
         (''joinDate'', js ''2023-11-14T22:13:20.000Z'')]]"
  using signup_storage_write [OF alice_world_valid, of browser] alice_world_valid
  by (simp add: browser_def valid_world_def signup_initial_def alice_def userData_def
      stringify_simps role_string_def js_Cons)

section \<open>The student detail modal\<close>

lemma displayed_eco_points:
  "displayed (js ''Eco Points'') (performanceData toLocaleString student) =
     [toLocaleString (ecoPoints student)]"
  by (simp add: displayed_def performanceData_def js_def)

subsection \<open>Decimal digits and their grouping\<close>

lemma digit_not_comma: "k < 10 \<Longrightarrow> (of_nat (48 + k) :: code_unit) \<noteq> 0x2C"
proof -
  assume "k < 10"
  then have "k \<in> {0, 1, 2, 3, 4, 5, 6, 7, 8, 9}" by auto
  then show ?thesis by auto
qed

lemma toString_nat_small: "n < 10 \<Longrightarrow> toString_nat n = [of_nat (48 + n)]"
  by (subst toString_nat.simps) (simp del: toString_nat.simps)

lemma toString_nat_step:
  "\<not> n < 10 \<Longrightarrow> toString_nat n = toString_nat (n div 10) @ [of_nat (48 + n mod 10)]"
  by (subst toString_nat.simps) (simp del: toString_nat.simps)

lemma toString_nat_no_comma: "0x2C \<notin> set (toString_nat n)"
proof (induction n rule: toString_nat.induct)
  case (1 n)
  show ?case
  proof (cases "n < 10")
    case True
    then show ?thesis using digit_not_comma [of n]
      by (simp add: toString_nat_small del: toString_nat.simps)
  next
    case False
    have "n mod 10 < 10" by simp
    from digit_not_comma [OF this] 1 False show ?thesis
      by (simp add: toString_nat_step del: toString_nat.simps)
  qed
qed

lemma commas_strip: "filter (\<lambda>c. c \<noteq> 0x2C) (commas s) = filter (\<lambda>c. c \<noteq> 0x2C) s"
  by (induction s rule: commas.induct) simp_all

lemma filter_no_comma: "0x2C \<notin> set (s :: jsstring) \<Longrightarrow> filter (\<lambda>c. c \<noteq> 0x2C) s = s"
  by (induction s) simp_all

lemma group3_strip: "0x2C \<notin> set s \<Longrightarrow> filter (\<lambda>c. c \<noteq> 0x2C) (group3 s) = s"
  by (simp add: group3_def rev_filter [symmetric] commas_strip filter_no_comma)

lemma commas_short: "length s < 4 \<Longrightarrow> commas s = s"
  by (cases s rule: commas.cases) simp_all

lemma commas_long: "\<not> length s < 4 \<Longrightarrow> 0x2C \<in> set (commas s)"
  by (cases s rule: commas.cases) simp_all

lemma group3_plain_iff:
  assumes "0x2C \<notin> set s"
  shows "group3 s = s \<longleftrightarrow> length s < 4"
proof
  assume eq: "group3 s = s"
  show "length s < 4"
  proof (rule ccontr)
    assume "\<not> length s < 4"
    then have "0x2C \<in> set (commas (rev s))" by (simp add: commas_long)
    then have "0x2C \<in> set (group3 s)" by (simp add: group3_def)
    with eq assms show False by simp
  qed
next
  assume "length s < 4"
  then show "group3 s = s" by (simp add: group3_def commas_short)
qed

lemma length_toString_nat:
  "length (toString_nat n) = (if n < 10 then 1 else Suc (length (toString_nat (n div 10))))"
  by (simp add: toString_nat_small toString_nat_step del: toString_nat.simps)

lemma length_toString_nat_pos: "0 < length (toString_nat n)"
  by (subst length_toString_nat) (simp del: toString_nat.simps)

lemma length_toString_nat_lt4: "length (toString_nat n) < 4 \<longleftrightarrow> n < 1000"
proof -
  let ?m = "n div 10 div 10 div 10"
  have "length (toString_nat n) =
          (if n < 10 then 1 else if n div 10 < 10 then 2 else if n div 10 div 10 < 10 then 3
           else 3 + length (toString_nat ?m))"
    by (simp add: length_toString_nat [of n] length_toString_nat [of "n div 10"]
        length_toString_nat [of "n div 10 div 10"] del: toString_nat.simps)
  moreover have "0 < length (toString_nat ?m)" by (rule length_toString_nat_pos)
  moreover have "n div 10 < 10 \<longleftrightarrow> n < 100" "n div 10 div 10 < 10 \<longleftrightarrow> n < 1000" by auto
  ultimately show ?thesis by (auto simp del: toString_nat.simps)
qed

lemma toLocaleString_enUS_strip:
  "filter (\<lambda>c. c \<noteq> 0x2C) (toLocaleString_enUS i) = toString_int i"
  by (simp add: toLocaleString_enUS_def toString_int_def group3_strip toString_nat_no_comma
      del: toString_nat.simps)

lemma toLocaleString_enUS_plain_iff:
  "toLocaleString_enUS i = toString_int i \<longleftrightarrow> - 1000 < i \<and> i < 1000"
  by (auto simp: toLocaleString_enUS_def toString_int_def group3_plain_iff
      toString_nat_no_comma length_toString_nat_lt4 simp del: toString_nat.simps)

subsection \<open>What is shown under \<open>Eco Points\<close>\<close>

lemma mira_points: "toString_int (ecoPoints mira) = js ''1250''"
  by code_simp

lemma mira_enUS: "toLocaleString_enUS (ecoPoints mira) = js ''1,250''"
  by code_simp

lemma ravi_points: "toString_int (ecoPoints ravi) = js ''750''"
  by code_simp

lemma ravi_enUS: "toLocaleString_enUS (ecoPoints ravi) = js ''750''"
  by code_simp

text \<open>
  On an en-US host the record with 1250 points is shown as \<open>1,250\<close>, which is not the
  integer as its plain decimal digits \<open>1250\<close>.
\<close>

theorem eco_points_not_verbatim_counterexample:
  "displayed (js ''Eco Points'') (performanceData toLocaleString_enUS mira) = [js ''1,250''] \<and>
   toString_int (ecoPoints mira) = js ''1250'' \<and>
   displayed (js ''Eco Points'') (performanceData toLocaleString_enUS mira) \<noteq>
     [toString_int (ecoPoints mira)]"
proof -
  have "js ''1,250'' \<noteq> js ''1250''" by (simp add: js_def)
  then show ?thesis
    by (simp add: displayed_eco_points mira_enUS mira_points)
qed

text \<open>
  Claim C7 (as amended). For every student record, the one value shown under
  \<open>Eco Points\<close> is the host's locale formatting of the \<open>ecoPoints\<close> integer of that
  record: no arithmetic is applied and no other field is read, so two records with the same
  points show the same text. On an en-US host the text is the decimal digits of the integer
  with commas between groups of three: taking the commas out gives the integer back, and
  the text is the plain integer exactly when the integer is between -999 and 999.
\<close>

theorem eco_points_locale_formatted:
  "displayed (js ''Eco Points'') (performanceData toLocaleString student) =
     [toLocaleString (ecoPoints student)] \<and>
   (ecoPoints student' = ecoPoints student \<longrightarrow>
      displayed (js ''Eco Points'') (performanceData toLocaleString student') =
      displayed (js ''Eco Points'') (performanceData toLocaleString student)) \<and>
   map (filter (\<lambda>c. c \<noteq> 0x2C))
       (displayed (js ''Eco Points'') (performanceData toLocaleString_enUS student)) =
     [toString_int (ecoPoints student)] \<and>
   (displayed (js ''Eco Points'') (performanceData toLocaleString_enUS student) =
      [toString_int (ecoPoints student)] \<longleftrightarrow>
    - 1000 < ecoPoints student \<and> ecoPoints student < 1000)"
  by (simp add: displayed_eco_points toLocaleString_enUS_strip toLocaleString_enUS_plain_iff
      del: toString_nat.simps)

text \<open>
  The record with 1250 points keeps its text when another field changes; the record with
  750 points is shown as the plain integer.
\<close>

theorem eco_points_locale_formatted_witness:
  "ecoPoints (mira\<lparr>streak := 9\<rparr>) = ecoPoints mira \<and>
   displayed (js ''Eco Points'') (performanceData toLocaleString_enUS (mira\<lparr>streak := 9\<rparr>)) =
     [js ''1,250''] \<and>
   displayed (js ''Eco Points'') (performanceData toLocaleString_enUS ravi) = [js ''750''] \<and>
   toString_int (ecoPoints ravi) = js ''750'' \<and>
   - 1000 < ecoPoints ravi \<and> ecoPoints ravi < 1000 \<and> \<not> ecoPoints mira < 1000"
  using eco_points_locale_formatted [of toLocaleString_enUS mira "mira\<lparr>streak := 9\<rparr>"]
    eco_points_locale_formatted [of toLocaleString_enUS ravi ravi]
  by (simp add: mira_enUS ravi_enUS ravi_points del: toString_nat.simps)
    (simp add: mira_def ravi_def)

section \<open>Submission of the lesson form\<close>

lemma lesson_sync_invalid:
  "\<not> fst (lesson_validateForm (component w)) \<Longrightarrow>
   lesson_handleSubmit_sync w =
     Returned (w\<lparr>component := (component w)\<lparr>errors := lesson_newErrors (formData (component w))\<rparr>,
                 effects := effects w @ [PreventDefault]\<rparr>)"
  by (simp add: lesson_handleSubmit_sync_def emit_def Let_def split_beta
      snd_lesson_validateForm)

lemma lesson_sync_valid:
  "fst (lesson_validateForm (component w)) \<Longrightarrow>
   lesson_handleSubmit_sync w =
     Awaiting 1500 (w\<lparr>component := (component w)\<lparr>errors := [], isSubmitting := True\<rparr>,
                      effects := effects w @ [PreventDefault]\<rparr>)"
  by (simp add: lesson_handleSubmit_sync_def emit_def Let_def split_beta
      snd_lesson_validateForm fst_lesson_validateForm)

lemma lesson_resume_ok:
  "\<not> onSave_throws env \<Longrightarrow>
   lesson_handleSubmit_resume env fd w =
     w\<lparr>component := (component w)\<lparr>formData := initialFormData, isSubmitting := False\<rparr>,
       effects := effects w @ [OnSave (cleanedData fd), OnClose] @
         (if onClose_throws env then [ConsoleError (js ''Error creating lesson:'')] else [])\<rparr>"
  by (simp add: lesson_handleSubmit_resume_def emit_def set_component_def Let_def)

lemma lesson_resume_throws:
  "onSave_throws env \<Longrightarrow>
   lesson_handleSubmit_resume env fd w =
     w\<lparr>component := (component w)\<lparr>isSubmitting := False\<rparr>,
       effects := effects w @
         [OnSave (cleanedData fd), ConsoleError (js ''Error creating lesson:'')]\<rparr>"
  by (simp add: lesson_handleSubmit_resume_def emit_def set_component_def Let_def)

lemma lesson_handleSubmit_invalid:
  "\<not> fst (lesson_validateForm (component w)) \<Longrightarrow>
   lesson_handleSubmit env w =
     [w\<lparr>component := (component w)\<lparr>errors := lesson_newErrors (formData (component w))\<rparr>,
        effects := effects w @ [PreventDefault]\<rparr>]"
  by (simp add: lesson_handleSubmit_def lesson_sync_invalid)

lemma lesson_handleSubmit_ok:
  "fst (lesson_validateForm (component w)) \<Longrightarrow> \<not> onSave_throws env \<Longrightarrow>
   lesson_handleSubmit env w =
     [w\<lparr>component := (component w)\<lparr>errors := [], isSubmitting := True\<rparr>,
        effects := effects w @ [PreventDefault]\<rparr>,
      w\<lparr>component := \<lparr>formData = initialFormData, errors = [], isSubmitting = False\<rparr>,
        effects := effects w @ [PreventDefault, OnSave (cleanedData (formData (component w))), OnClose] @
          (if onClose_throws env then [ConsoleError (js ''Error creating lesson:'')] else [])\<rparr>]"
  by (simp add: lesson_handleSubmit_def lesson_sync_valid lesson_resume_ok)

lemma lesson_handleSubmit_throws:
  "fst (lesson_validateForm (component w)) \<Longrightarrow> onSave_throws env \<Longrightarrow>
   lesson_handleSubmit env w =
     [w\<lparr>component := (component w)\<lparr>errors := [], isSubmitting := True\<rparr>,
        effects := effects w @ [PreventDefault]\<rparr>,
      w\<lparr>component := (component w)\<lparr>errors := [], isSubmitting := False\<rparr>,
        effects := effects w @
          [PreventDefault, OnSave (cleanedData (formData (component w))),
           ConsoleError (js ''Error creating lesson:'')]\<rparr>]"
  by (simp add: lesson_handleSubmit_def lesson_sync_valid lesson_resume_throws)

lemma wetlands_world_valid: "fst (lesson_validateForm (component (lesson_world wetlands)))"
  by (simp add: lesson_world_def lesson_form_def fst_lesson_validateForm lesson_newErrors_Nil
      wetlands_checks)

text \<open>
  A valid form whose \<open>onSave\<close> throws: the call is made, the error is logged, the form
  keeps what was entered and \<open>onClose\<close> is not called.
\<close>

theorem lesson_submit_not_reset_counterexample:
  "fst (lesson_validateForm (component (lesson_world wetlands))) \<and>
   formData (component (last (lesson_handleSubmit
      \<lparr>onSave_throws = True, onClose_throws = False\<rparr> (lesson_world wetlands)))) = wetlands \<and>
   wetlands \<noteq> initialFormData \<and>
   effects (last (lesson_handleSubmit
      \<lparr>onSave_throws = True, onClose_throws = False\<rparr> (lesson_world wetlands))) =
     [PreventDefault, OnSave (cleanedData wetlands), ConsoleError (js ''Error creating lesson:'')] \<and>
   OnClose \<notin> set (effects (last (lesson_handleSubmit
      \<lparr>onSave_throws = True, onClose_throws = False\<rparr> (lesson_world wetlands))))"
proof -
  have "duration wetlands \<noteq> duration initialFormData"
    by (simp add: wetlands_def initialFormData_def)
  then have "wetlands \<noteq> initialFormData" by auto
  then show ?thesis
    using wetlands_world_valid
    by (simp add: lesson_handleSubmit_throws) (simp add: lesson_world_def lesson_form_def)
qed

text \<open>
  Claim C8 (as amended). For every lesson form state that passes validation, and whatever
  the callbacks do, \<open>handleSubmit\<close> writes nothing to browser storage, calls \<open>onSave\<close> exactly
  once, with the form data in which the blank objectives and the blank materials are
  filtered out and nothing else is changed, and ends with \<open>isSubmitting\<close> false. When
  \<open>onSave\<close> returns, the form is reset to its initial defaults and \<open>onClose\<close> is called;
  when \<open>onSave\<close> throws, the error is logged, the form is left as it was and \<open>onClose\<close> is
  not called.
\<close>

theorem lesson_submit_outputs:
  assumes "fst (lesson_validateForm (component w))"
  shows "filter isStorageWrite (effects (last (lesson_handleSubmit env w))) =
           filter isStorageWrite (effects w) \<and>
         filter isOnSave (effects (last (lesson_handleSubmit env w))) =
           filter isOnSave (effects w) @ [OnSave (cleanedData (formData (component w)))] \<and>
         objectives (cleanedData (formData (component w))) =
           filter (\<lambda>obj. trim obj \<noteq> []) (objectives (formData (component w))) \<and>
         materials (cleanedData (formData (component w))) =
           filter (\<lambda>mat. trim mat \<noteq> []) (materials (formData (component w))) \<and>
         cleanedData (formData (component w)) =
           (formData (component w))\<lparr>objectives := objectives (cleanedData (formData (component w))),
              materials := materials (cleanedData (formData (component w)))\<rparr> \<and>
         \<not> isSubmitting (component (last (lesson_handleSubmit env w))) \<and>
         (if onSave_throws env
          then formData (component (last (lesson_handleSubmit env w))) = formData (component w) \<and>
               effects (last (lesson_handleSubmit env w)) =
                 effects w @ [PreventDefault, OnSave (cleanedData (formData (component w))),
                              ConsoleError (js ''Error creating lesson:'')]
          else formData (component (last (lesson_handleSubmit env w))) = initialFormData \<and>
               effects (last (lesson_handleSubmit env w)) =
                 effects w @ [PreventDefault, OnSave (cleanedData (formData (component w))), OnClose] @
                   (if onClose_throws env then [ConsoleError (js ''Error creating lesson:'')]
                    else []))"
proof (cases "onSave_throws env")
  case True
  with assms show ?thesis
    by (simp add: lesson_handleSubmit_throws cleanedData_def)
next
  case False
  with assms show ?thesis
    by (simp add: lesson_handleSubmit_ok cleanedData_def)
qed

text \<open>
  A run whose callbacks return: what \<open>onSave\<close> receives and the state afterwards.
\<close>

theorem lesson_submit_outputs_witness:
  "fst (lesson_validateForm (component (lesson_world wetlands))) \<and>
   effects (last (lesson_handleSubmit parent_ok (lesson_world wetlands))) =
     [PreventDefault,
      OnSave (wetlands\<lparr>objectives := [js ''Name two wetland plants''], materials := [js ''Map'']\<rparr>),
      OnClose] \<and>
   component (last (lesson_handleSubmit parent_ok (lesson_world wetlands))) =
     initial_lesson_state"
  using lesson_submit_outputs [OF wetlands_world_valid, of parent_ok] wetlands_world_valid
  by (simp add: parent_ok_def lesson_handleSubmit_ok initial_lesson_state_def)
    (simp add: lesson_world_def lesson_form_def cleanedData_def wetlands_def eval_strings)

section \<open>The lists of the lesson form are never empty\<close>

lemma length_remove_index:
  "length (remove_index i xs) = (if i < length xs then length xs - 1 else length xs)"
proof -
  have "\<And>n. length (filter (\<lambda>(j, x). j \<noteq> i) (enumerate n xs)) =
          (if n \<le> i \<and> i < n + length xs then length xs - 1 else length xs)"
  proof (induction xs)
    case Nil
    show ?case by simp
  next
    case (Cons x xs)
    show ?case using Cons [of "Suc n"] by auto
  qed
  from this [of 0] show ?thesis by (simp add: remove_index_def)
qed

lemma set_field_lists:
  "objectives (set_field f v fd) = objectives fd" "materials (set_field f v fd) = materials fd"
  by (cases f; simp add: set_field_def)+

lemma handleChange_lists:
  "objectives (formData (lesson_handleChange f v st)) = objectives (formData st)"
  "materials (formData (lesson_handleChange f v st)) = materials (formData st)"
  by (simp_all add: lesson_handleChange_def Let_def set_field_lists)

lemma handleObjectiveChange_lists:
  "handleObjectiveChange i v st = Some st' \<Longrightarrow>
     length (objectives (formData st')) = length (objectives (formData st)) \<and>
     materials (formData st') = materials (formData st)"
  by (auto simp: handleObjectiveChange_def Let_def split: if_splits)

lemma handleMaterialChange_lists:
  "handleMaterialChange i v st = Some st' \<Longrightarrow>
     length (materials (formData st')) = length (materials (formData st)) \<and>
     objectives (formData st') = objectives (formData st)"
  by (auto simp: handleMaterialChange_def Let_def split: if_splits)

lemma removeObjective_lists:
  "length (objectives (formData (removeObjective i st))) =
     (if 1 < length (objectives (formData st)) \<and> i < length (objectives (formData st))
      then length (objectives (formData st)) - 1 else length (objectives (formData st)))"
  "materials (formData (removeObjective i st)) = materials (formData st)"
  by (simp_all add: removeObjective_def Let_def length_remove_index)

lemma removeMaterial_lists:
  "length (materials (formData (removeMaterial i st))) =
     (if 1 < length (materials (formData st)) \<and> i < length (materials (formData st))
      then length (materials (formData st)) - 1 else length (materials (formData st)))"
  "objectives (formData (removeMaterial i st)) = objectives (formData st)"
  by (simp_all add: removeMaterial_def Let_def length_remove_index)

lemma lists_nonempty_initial: "lists_nonempty initial_lesson_state"
  by (simp add: lists_nonempty_def initial_lesson_state_def initialFormData_def)

lemma lists_nonempty_sync:
  "lesson_handleSubmit_sync w = Returned w' \<or> lesson_handleSubmit_sync w = Awaiting ms w' \<Longrightarrow>
   formData (component w') = formData (component w)"
  by (cases "fst (lesson_validateForm (component w))")
    (auto simp: lesson_sync_valid lesson_sync_invalid)

lemma lists_nonempty_resume:
  "lists_nonempty (component w) \<Longrightarrow>
   lists_nonempty (component (lesson_handleSubmit_resume env fd w))"
  by (cases "onSave_throws env")
    (simp_all add: lesson_resume_ok lesson_resume_throws lists_nonempty_def initialFormData_def)

lemma reachable_lists_nonempty: "reachable w \<Longrightarrow> lists_nonempty (component w)"
proof (induction rule: reachable.induct)
  case init
  show ?case by (simp add: lists_nonempty_initial)
next
  case (change w f v)
  then show ?case by (simp add: lists_nonempty_def set_component_def handleChange_lists)
next
  case (objective_change w i v st)
  then show ?case using handleObjectiveChange_lists [of i v "component w" st]
    by (simp add: lists_nonempty_def)
next
  case (add_objective w)
  then show ?case by (simp add: lists_nonempty_def set_component_def addObjective_def)
next
  case (remove_objective w i)
  then show ?case by (auto simp: lists_nonempty_def set_component_def removeObjective_lists)
next
  case (material_change w i v st)
  then show ?case using handleMaterialChange_lists [of i v "component w" st]
    by (simp add: lists_nonempty_def)
next
  case (add_material w)
  then show ?case by (simp add: lists_nonempty_def set_component_def addMaterial_def)
next
  case (remove_material w i)
  then show ?case by (auto simp: lists_nonempty_def set_component_def removeMaterial_lists)
next
  case (submit_returned w w')
  then show ?case using lists_nonempty_sync [of w w'] by (simp add: lists_nonempty_def)
next
  case (submit_waiting w ms w')
  then show ?case using lists_nonempty_sync [of w w' ms] by (simp add: lists_nonempty_def)
next
  case (submit_resumed w env fd)
  then show ?case by (simp add: lists_nonempty_resume)
next
  case (close w)
  show ?case
    by (simp add: handleClose_def emit_def set_component_def lists_nonempty_def
        initialFormData_def)
qed

text \<open>
  Claim C9. In every state the modal can reach, the objectives and the materials have at
  least one entry each. They start as a single empty entry; \<open>addObjective\<close> and
  \<open>addMaterial\<close> lengthen the list by one; \<open>handleObjectiveChange\<close> and
  \<open>handleMaterialChange\<close>, called with the index of an entry, keep the length; and
  \<open>removeObjective\<close> and \<open>removeMaterial\<close> leave the state as it is when one entry remains.
\<close>

theorem lesson_lists_never_empty:
  assumes "reachable w"
  shows "1 \<le> length (objectives (formData (component w))) \<and>
         1 \<le> length (materials (formData (component w))) \<and>
         objectives initialFormData = [[]] \<and> materials initialFormData = [[]] \<and>
         length (objectives (formData (addObjective (component w)))) =
           length (objectives (formData (component w))) + 1 \<and>
         length (materials (formData (addMaterial (component w)))) =
           length (materials (formData (component w))) + 1 \<and>
         map_option (\<lambda>st. length (objectives (formData st)))
             (handleObjectiveChange i v (component w)) =
           (if i < length (objectives (formData (component w)))
            then Some (length (objectives (formData (component w)))) else None) \<and>
         map_option (\<lambda>st. length (materials (formData st)))
             (handleMaterialChange i v (component w)) =
           (if i < length (materials (formData (component w)))
            then Some (length (materials (formData (component w)))) else None) \<and>
         (length (objectives (formData (component w))) = 1 \<longrightarrow>
            removeObjective i (component w) = component w) \<and>
         (length (materials (formData (component w))) = 1 \<longrightarrow>
            removeMaterial i (component w) = component w) \<and>
         1 \<le> length (objectives (formData (removeObjective i (component w)))) \<and>
         1 \<le> length (materials (formData (removeMaterial i (component w))))"
proof -
  have inv: "1 \<le> length (objectives (formData (component w)))"
      "1 \<le> length (materials (formData (component w)))"
    using reachable_lists_nonempty [OF assms] by (simp_all add: lists_nonempty_def)
  have a: "length (objectives (formData (addObjective (component w)))) =
           length (objectives (formData (component w))) + 1"
    by (simp add: addObjective_def)
  have b: "length (materials (formData (addMaterial (component w)))) =
           length (materials (formData (component w))) + 1"
    by (simp add: addMaterial_def)
  have c: "map_option (\<lambda>st. length (objectives (formData st)))
             (handleObjectiveChange i v (component w)) =
           (if i < length (objectives (formData (component w)))
            then Some (length (objectives (formData (component w)))) else None)"
    by (simp add: handleObjectiveChange_def Let_def)
  have d: "map_option (\<lambda>st. length (materials (formData st)))
             (handleMaterialChange i v (component w)) =
           (if i < length (materials (formData (component w)))
            then Some (length (materials (formData (component w)))) else None)"
    by (simp add: handleMaterialChange_def Let_def)
  have e: "length (objectives (formData (component w))) = 1 \<longrightarrow>
            removeObjective i (component w) = component w"
    by (simp add: removeObjective_def)
  have f: "length (materials (formData (component w))) = 1 \<longrightarrow>
            removeMaterial i (component w) = component w"
    by (simp add: removeMaterial_def)
  have g: "1 \<le> length (objectives (formData (removeObjective i (component w))))"
    using inv(1) by (auto simp: removeObjective_lists)
  have h: "1 \<le> length (materials (formData (removeMaterial i (component w))))"
    using inv(2) by (auto simp: removeMaterial_lists)
  have init: "objectives initialFormData = [[]]" "materials initialFormData = [[]]"
    by (simp_all add: initialFormData_def)
  from inv a b c d e f g h init show ?thesis by blast
qed

lemma reachable_example:
  "reachable (set_component (removeObjective 0) (set_component (removeObjective 0)
      (set_component addObjective opened)))"
  unfolding opened_def
  by (intro reachable.remove_objective reachable.add_objective reachable.init)

text \<open>
  Adding an objective and removing twice: the second removal is refused.
\<close>

theorem lesson_lists_never_empty_witness:
  "reachable (set_component (removeObjective 0) (set_component (removeObjective 0)
      (set_component addObjective opened))) \<and>
   objectives (formData (component (set_component (removeObjective 0)
      (set_component (removeObjective 0) (set_component addObjective opened))))) = [[]] \<and>
   length (objectives (formData (component (set_component (removeObjective 0)
      (set_component (removeObjective 0) (set_component addObjective opened)))))) = 1 \<and>
   removeObjective 0 (component (set_component (removeObjective 0)
      (set_component (removeObjective 0) (set_component addObjective opened)))) =
     component (set_component (removeObjective 0)
      (set_component (removeObjective 0) (set_component addObjective opened)))"
  using lesson_lists_never_empty [OF reachable_example, of 0 "[]"] reachable_example
  by (simp add: opened_def set_component_def addObjective_def removeObjective_def
      initial_lesson_state_def initialFormData_def remove_index_def enumerate_eq_zip)

section \<open>The duration field\<close>

lemma get_duration_other:
  "get_prop (validate_title fd e) ''duration'' = get_prop e ''duration''"
  "get_prop (validate_subject fd e) ''duration'' = get_prop e ''duration''"
  "get_prop (validate_description fd e) ''duration'' = get_prop e ''duration''"
  "get_prop (validate_objectives fd e) ''duration'' = get_prop e ''duration''"
  "get_prop (validate_category fd e) ''duration'' = get_prop e ''duration''"
  by (simp_all add: validate_title_def validate_subject_def validate_description_def
      validate_objectives_def validate_category_def get_prop_update Let_def)

lemma get_duration_validate_duration:
  "get_prop (validate_duration fd e) ''duration'' =
     (if duration_check fd then get_prop e ''duration''
      else Some (js ''Duration must be between 15 and 180 minutes''))"
  by (auto simp: validate_duration_def duration_check_def get_prop_update)

lemma get_duration_lesson_newErrors:
  "get_prop (lesson_newErrors fd) ''duration'' =
     (if duration_check fd then None
      else Some (js ''Duration must be between 15 and 180 minutes''))"
  by (simp only: lesson_newErrors_def get_duration_other get_duration_validate_duration
      get_prop_Nil)

lemma duration_handleChange:
  "duration (formData (lesson_handleChange FDuration v st)) = parseInt_or_0 v"
  by (simp add: lesson_handleChange_def Let_def set_field_def)

lemma parseInt_or_0_eq: "parseInt_or_0 v = (case parseInt v of None \<Rightarrow> 0 | Some n \<Rightarrow> n)"
  by (simp add: parseInt_or_0_def split: option.splits)

lemma valid_duration_check: "fst (lesson_validateForm st) \<Longrightarrow> duration_check (formData st)"
  by (simp add: fst_lesson_validateForm lesson_newErrors_Nil)

lemma effect_kinds_saved [simp]:
  "savedDurationsInRange []"
  "savedDurationsInRange (PreventDefault # es) = savedDurationsInRange es"
  "savedDurationsInRange (ConsoleError a # es) = savedDurationsInRange es"
  "savedDurationsInRange (OnClose # es) = savedDurationsInRange es"
  "savedDurationsInRange (OnSave d # es) =
     (15 \<le> duration d \<and> duration d \<le> 180 \<and> savedDurationsInRange es)"
  by (simp_all add: savedDurationsInRange_def)

lemma duration_cleanedData: "duration (cleanedData fd) = duration fd"
  by (simp add: cleanedData_def)

lemma saved_durations:
  "list_all (\<lambda>w'. savedDurationsInRange (drop (length (effects w)) (effects w')))
     (lesson_handleSubmit env w)"
proof (cases "fst (lesson_validateForm (component w))")
  case False
  then show ?thesis by (simp add: lesson_handleSubmit_invalid)
next
  case True
  from valid_duration_check [OF True]
  have d: "15 \<le> duration (formData (component w))" "duration (formData (component w)) \<le> 180"
    by (simp_all add: duration_check_def)
  show ?thesis
  proof (cases "onSave_throws env")
    case True
    with \<open>fst (lesson_validateForm (component w))\<close> d show ?thesis
      by (simp add: lesson_handleSubmit_throws duration_cleanedData)
  next
    case False
    with \<open>fst (lesson_validateForm (component w))\<close> d show ?thesis
      by (simp add: lesson_handleSubmit_ok duration_cleanedData)
  qed
qed

text \<open>
  Claim C10. A change of the duration field stores the integer that \<open>parseInt\<close> reads, and
  0 when \<open>parseInt\<close> gives \<open>NaN\<close>. With that 0 stored, \<open>validateForm\<close> fails and records
  the duration-range message, and \<open>handleSubmit\<close> does nothing beyond \<open>preventDefault\<close>, so
  \<open>onSave\<close> is not called. In any run of \<open>handleSubmit\<close>, a lesson handed to \<open>onSave\<close> has
  a duration between 15 and 180.
\<close>

theorem duration_guard:
  "duration (formData (lesson_handleChange FDuration v st)) =
     (case parseInt v of None \<Rightarrow> 0 | Some n \<Rightarrow> n) \<and>
   (parseInt v = None \<longrightarrow>
      duration (formData (lesson_handleChange FDuration v st)) = 0 \<and>
      \<not> fst (lesson_validateForm (lesson_handleChange FDuration v st)) \<and>
      get_prop (errors (snd (lesson_validateForm (lesson_handleChange FDuration v st))))
          ''duration'' =
        Some (js ''Duration must be between 15 and 180 minutes'') \<and>
      map effects (lesson_handleSubmit env
          \<lparr>component = lesson_handleChange FDuration v st, effects = es\<rparr>) =
        [es @ [PreventDefault]]) \<and>
   list_all (\<lambda>w'. savedDurationsInRange (drop (length (effects w)) (effects w')))
     (lesson_handleSubmit env w)"
proof (intro conjI impI)
  show "duration (formData (lesson_handleChange FDuration v st)) =
     (case parseInt v of None \<Rightarrow> 0 | Some n \<Rightarrow> n)"
    by (simp add: duration_handleChange parseInt_or_0_eq)
next
  assume nan: "parseInt v = None"
  let ?st = "lesson_handleChange FDuration v st"
  show zero: "duration (formData ?st) = 0"
    using nan by (simp add: duration_handleChange parseInt_or_0_eq)
  then have bad: "\<not> duration_check (formData ?st)"
    by (simp add: duration_check_def)
  then show invalid: "\<not> fst (lesson_validateForm ?st)"
    by (simp add: fst_lesson_validateForm lesson_newErrors_Nil)
  show "get_prop (errors (snd (lesson_validateForm ?st))) ''duration'' =
        Some (js ''Duration must be between 15 and 180 minutes'')"
    using bad by (simp add: snd_lesson_validateForm get_duration_lesson_newErrors)
  show "map effects (lesson_handleSubmit env \<lparr>component = ?st, effects = es\<rparr>) =
        [es @ [PreventDefault]]"
    using invalid by (simp add: lesson_handleSubmit_invalid)
next
  show "list_all (\<lambda>w'. savedDurationsInRange (drop (length (effects w)) (effects w')))
     (lesson_handleSubmit env w)"
    by (rule saved_durations)
qed

lemma parseInt_abc: "parseInt (js ''abc'') = None"
  by (simp add: parseInt_def js_def isWhiteSpace_def stripSign_def stripPrefix_def
      isRadixDigit_def digitValue_def)

text \<open>
  Typing \<open>abc\<close> into the duration field of a form that was valid.
\<close>

theorem duration_guard_witness:
  "parseInt (js ''abc'') = None \<and>
   duration (formData (lesson_handleChange FDuration (js ''abc'') (lesson_form wetlands))) = 0 \<and>
   \<not> fst (lesson_validateForm (lesson_handleChange FDuration (js ''abc'') (lesson_form wetlands))) \<and>
   map effects (lesson_handleSubmit parent_ok
       \<lparr>component = lesson_handleChange FDuration (js ''abc'') (lesson_form wetlands),
        effects = []\<rparr>) = [[PreventDefault]]"
  using duration_guard [of "js ''abc''" "lesson_form wetlands" parent_ok "[]"] parseInt_abc
  by simp

lemma parseInt_examples:
  "parseInt (js '''') = None" "parseInt (js ''12px'') = Some 12"
  "parseInt (js '' -7'') = Some (- 7)" "parseInt (js ''0x1F'') = Some 31"
  by (simp_all add: parseInt_def js_def isWhiteSpace_def stripSign_def stripPrefix_def
      isRadixDigit_def digitValue_def digitsValue_def)

end
